theory Spec2Isabelle
  imports Main
begin

section \<open>Values exchanged with the Floss stack\<close>

text \<open>
  The two gRPC services of \<^verbatim>\<open>floss/pandora/server\<close> (\<^verbatim>\<open>host.py\<close>, \<^verbatim>\<open>gatt.py\<close>) bridge
  callbacks of the Floss Bluetooth stack to request handlers. Addresses, UUIDs and byte
  strings are opaque comparable values.
\<close>

type_synonym address = string
type_synonym uuid = string
type_synonym bytes = "nat list"

text \<open>The members of \<^verbatim>\<open>floss_enums\<close> that the handlers compare against.\<close>

datatype BondState = NOT_BONDED | BONDING | BONDED

datatype SspVariant = PASSKEY_CONFIRMATION | PASSKEY_ENTRY | CONSENT | PASSKEY_NOTIFICATION

datatype GattStatus = SUCCESS | GattStatusOther nat

datatype BtPropertyType = Uuids | OtherProperty nat

text \<open>Exceptions are values; messages are left out.\<close>

datatype error =
    InvalidStateError
  | RuntimeError
  | ValueError
  | TimeoutError
  | CancelledError
  | AttributeError
  | TypeError
  | NameError
  | NotImplementedError

subsection \<open>asyncio.Future\<close>

text \<open>
  \<^verbatim>\<open>asyncio.Future.set_result\<close> stores the result of a pending future and raises
  \<^verbatim>\<open>InvalidStateError\<close> on a future that is already done, leaving its result as it was.
\<close>

datatype 'a future = Pending | Done 'a

definition set_result :: "'a future \<Rightarrow> 'a \<Rightarrow> 'a future \<times> error option" where
  "set_result f v = (case f of Pending \<Rightarrow> (Done v, None) | Done w \<Rightarrow> (Done w, Some InvalidStateError))"

text \<open>
  \<^verbatim>\<open>future.get_loop().call_soon_threadsafe(future.set_result, v)\<close>, as the observers of
  \<^verbatim>\<open>gatt.py\<close> resolve their futures: the event loop runs \<^verbatim>\<open>set_result\<close> and keeps an
  exception of it to itself (it is reported to the loop's exception handler), so the
  callback that scheduled it never sees one.
\<close>

definition call_soon_set_result :: "'a future \<Rightarrow> 'a \<Rightarrow> 'a future" where
  "call_soon_set_result f v = fst (set_result f v)"


section \<open>The collaborators\<close>

text \<open>
  \<^verbatim>\<open>self.bluetooth\<close> (module \<^verbatim>\<open>floss.pandora.server.bluetooth\<close>) is not part of the
  sources. A \<open>device\<close> holds what its query methods answer, and what its triggering
  methods return, during one run of handler code between two suspension points.
\<close>

record device =
  get_address :: address
  is_connected :: "address \<Rightarrow> bool"
  is_bonded :: "address \<Rightarrow> bool"
  create_bond :: "address \<Rightarrow> bool"
  connect_all_enabled_profiles :: "address \<Rightarrow> bool"
  active_advs :: "nat list"
  start_advertising_set :: nat
  register_scanner :: uuid
  is_discovering :: bool
  get_remote_uuids :: "address \<Rightarrow> uuid list option"
  get_bond_state :: "address \<Rightarrow> BondState"
  fetch_remote :: "address \<Rightarrow> bool"

text \<open>
  The four callback registries of the stack, and the observer classes the handlers
  define. An observer stands for the pair \<^verbatim>\<open>(name, observer)\<close> with
  \<^verbatim>\<open>name = utils.create_observer_name(observer)\<close>; \<open>AdvertisingObserver k\<close> is the
  \<open>k\<close>-th observer object that one \<^verbatim>\<open>Advertise\<close> call has appended to its list.
\<close>

datatype client = adapter_client | advertising_client | scanner_client | gatt_client

datatype observer =
    PairingObserver
  | ConnectionObserver
  | DisconnectionObserver
  | AdvertiseConnectionObserver
  | AdvertisingObserver nat
  | ScanObserver
  | DiscoveryObserver
  | InquiryResultObserver
  | MTUChangeObserver
  | WriteAttObserver
  | ReadCharacteristicFromHandleObserver
  | ReadCharacteristicDescriptorFromHandleObserver
  | GattDiscoveryObserver
  | DiscoverySDPObserver
  | ClearCacheObserver

type_synonym gatt_service = nat
type_synonym scan_result = nat

datatype write_status = FromGatt GattStatus | INVALID_HANDLE

datatype response =
    Empty
  | ReadLocalAddressResponse address
  | ConnectResponse address
  | WaitConnectionResponse address
  | AdvertiseResponse address
  | ScanningResponse scan_result
  | InquiryResponse address
  | ExchangeMTUResponse
  | WriteResponse nat write_status
  | DiscoverServicesResponse "gatt_service list"
  | DiscoverServicesSdpResponse "uuid list"
  | ClearCacheResponse

text \<open>
  What a handler does to the outside, in order: calls into the stack and, for a
  streaming handler, the responses it yields.
\<close>

datatype call =
    Register client observer
  | Unregister client observer
  | ServerStop
  | BluetoothReset
  | ConnectDevice address
  | CreateBond address
  | ConnectAllEnabledProfiles address
  | SetPairingConfirmation address bool
  | DisconnectDevice address
  | StartAdvertisingSet
  | StopAdvertisingSet "nat option"
  | RegisterScanner
  | StartScan "nat option"
  | StopScan nat
  | StartDiscovery
  | StopDiscovery
  | SetDiscoverable nat nat
  | ConfigureMtu address nat
  | ReadCharacteristic address nat nat
  | ReadDescriptor address nat nat
  | WriteCharacteristic address nat nat nat bytes
  | WriteDescriptor address nat nat bytes
  | BtifGattcDiscoverServiceByUuid address uuid
  | DiscoverServicesCall address
  | FetchRemote address
  | RefreshDevice address
  | Yield response

text \<open>
  A callback returns the calls it made, the task it was created with (its futures and
  queues as the callback left them) and the exception its body raised, if any. The
  decorator \<^verbatim>\<open>utils.glib_callback\<close> is not part of the sources; a callback here is the
  decorated method's body.
\<close>

type_synonym 'task callback_result = "call list \<times> 'task \<times> error option"

section \<open>The observers of host.py\<close>

subsection \<open>Connect: PairingObserver\<close>

datatype reason =
    FailedToBond nat BondState
  | FailedConnectAllEnabledProfiles
  | PairingConfirmationFailed "string option" bool

type_synonym connect_result = "bool \<times> reason option"

record pairing_task =
  connect_device :: "connect_result future"
  pairing_address :: address

definition pairing_set_result :: "call list \<Rightarrow> pairing_task \<Rightarrow> connect_result \<Rightarrow> pairing_task callback_result" where
  "pairing_set_result calls task v =
     (let (f, e) = set_result (connect_device task) v in (calls, task\<lparr>connect_device := f\<rparr>, e))"

definition on_bond_state_changed ::
  "device \<Rightarrow> pairing_task \<Rightarrow> nat \<Rightarrow> address \<Rightarrow> BondState \<Rightarrow> pairing_task callback_result" where
  "on_bond_state_changed client task status address state =
     (if address \<noteq> pairing_address task then ([], task, None)
      else if status \<noteq> 0 then
        pairing_set_result [] task (False, Some (FailedToBond status state))
      else if state = BONDED then
        (if \<not> is_connected client (pairing_address task) then
           (if \<not> connect_all_enabled_profiles client (pairing_address task) then
              pairing_set_result [ConnectAllEnabledProfiles (pairing_address task)] task
                (False, Some FailedConnectAllEnabledProfiles)
            else ([ConnectAllEnabledProfiles (pairing_address task)], task, None))
         else pairing_set_result [] task (True, None))
      else ([], task, None))"

definition on_ssp_request ::
  "pairing_task \<Rightarrow> address \<times> string \<Rightarrow> nat \<Rightarrow> SspVariant \<Rightarrow> nat \<Rightarrow> pairing_task callback_result" where
  "on_ssp_request task remote_device class_of_device variant passkey =
     (let address = fst remote_device in
      if address \<noteq> pairing_address task then ([], task, None)
      else if variant = CONSENT then ([SetPairingConfirmation address True], task, None)
      else ([], task, None))"

definition truthy :: "string option \<Rightarrow> bool" where
  "truthy err = (case err of None \<Rightarrow> False | Some s \<Rightarrow> s \<noteq> [])"

definition on_set_pairing_confirmation ::
  "pairing_task \<Rightarrow> string option \<Rightarrow> bool \<Rightarrow> pairing_task callback_result" where
  "on_set_pairing_confirmation task err result =
     (if truthy err \<or> \<not> result then
        pairing_set_result [] task (False, Some (PairingConfirmationFailed err result))
      else ([], task, None))"

definition PairingObserver_on_device_connected ::
  "device \<Rightarrow> pairing_task \<Rightarrow> address \<times> string \<Rightarrow> pairing_task callback_result" where
  "PairingObserver_on_device_connected client task remote_device =
     (let address = fst remote_device in
      if address \<noteq> pairing_address task then ([], task, None)
      else if is_bonded client address then pairing_set_result [] task (True, None)
      else ([], task, None))"

subsection \<open>WaitConnection and WaitDisconnection: ConnectionObserver\<close>

record connection_task =
  wait_connection :: "address future"
  wait_connection_address :: address

definition ConnectionObserver_on_device_connected ::
  "connection_task \<Rightarrow> address \<times> string \<Rightarrow> connection_task callback_result" where
  "ConnectionObserver_on_device_connected task remote_device =
     (let address = fst remote_device in
      if address \<noteq> wait_connection_address task then ([], task, None)
      else (let (f, e) = set_result (wait_connection task) address
            in ([], task\<lparr>wait_connection := f\<rparr>, e)))"

record disconnection_task =
  wait_disconnection :: "address future"
  wait_disconnection_address :: address

definition on_device_disconnected ::
  "disconnection_task \<Rightarrow> address \<times> string \<Rightarrow> disconnection_task callback_result" where
  "on_device_disconnected task remote_device =
     (let address = fst remote_device in
      if address \<noteq> wait_disconnection_address task then ([], task, None)
      else (let (f, e) = set_result (wait_disconnection task) address
            in ([], task\<lparr>wait_disconnection := f\<rparr>, e)))"

subsection \<open>Advertise: AdvertisingObserver and ConnectionObserver\<close>

record advertising_task =
  start_advertising :: "nat option future"
  task_reg_id :: nat

definition on_advertising_set_started ::
  "advertising_task \<Rightarrow> nat \<Rightarrow> nat \<Rightarrow> int \<Rightarrow> GattStatus option \<Rightarrow> advertising_task callback_result" where
  "on_advertising_set_started task reg_id advertiser_id tx_power status =
     (if reg_id \<noteq> task_reg_id task then ([], task, None)
      else
        (let advertiser_id' = (if status = None \<or> status \<noteq> Some SUCCESS then None else Some advertiser_id);
             (f, e) = set_result (start_advertising task) advertiser_id'
         in ([], task\<lparr>start_advertising := f\<rparr>, e)))"

text \<open>
  The queue of an \<^verbatim>\<open>asyncio.Queue()\<close> is unbounded; \<^verbatim>\<open>put\<close> appends. The
  connection observer of \<^verbatim>\<open>Advertise\<close> has no key: it forwards every connection.
\<close>

definition Advertise_on_device_connected :: "address list \<Rightarrow> address \<times> string \<Rightarrow> address list" where
  "Advertise_on_device_connected connections remote_device = connections @ [fst remote_device]"

subsection \<open>Scan: ScanObserver\<close>

record scan_task =
  register_scanner_future :: "nat option future"
  scan_uuid :: uuid
  scan_results :: "scan_result list"

definition on_scanner_registered ::
  "scan_task \<Rightarrow> uuid \<Rightarrow> nat \<Rightarrow> GattStatus \<Rightarrow> scan_task callback_result" where
  "on_scanner_registered task uuid scanner_id status =
     (if uuid \<noteq> scan_uuid task then ([], task, None)
      else
        (let scanner_id' = (if status \<noteq> SUCCESS then None else Some scanner_id);
             (f, e) = set_result (register_scanner_future task) scanner_id'
         in ([], task\<lparr>register_scanner_future := f\<rparr>, e)))"

definition on_scan_result :: "scan_task \<Rightarrow> scan_result \<Rightarrow> scan_task callback_result" where
  "on_scan_result task scan_result = ([], task\<lparr>scan_results := scan_results task @ [scan_result]\<rparr>, None)"

subsection \<open>Inquiry: InquiryResultObserver and DiscoveryObserver\<close>

definition on_device_found :: "address list \<Rightarrow> address \<times> string \<Rightarrow> address list" where
  "on_device_found inquiry_results remote_device = inquiry_results @ [fst remote_device]"

record inquiry_task =
  start_inquiry :: "bool future"
  task_discovering :: bool

definition on_discovering_changed :: "inquiry_task \<Rightarrow> bool \<Rightarrow> inquiry_task callback_result" where
  "on_discovering_changed task discovering =
     (if discovering = task_discovering task then
        (let (f, e) = set_result (start_inquiry task) discovering
         in ([], task\<lparr>start_inquiry := f\<rparr>, e))
      else ([], task, None))"

section \<open>The observers of gatt.py\<close>

text \<open>
  Every observer of \<^verbatim>\<open>gatt.py\<close> is created with a task of one future and the address
  of the request (the dictionary keys \<^verbatim>\<open>configure_mtu\<close>, \<^verbatim>\<open>write_attribute\<close>,
  \<^verbatim>\<open>characteristics\<close>, \<^verbatim>\<open>descriptors\<close>, \<^verbatim>\<open>search_services\<close>,
  \<^verbatim>\<open>device_uuids_changed\<close>, \<^verbatim>\<open>refresh\<close> name the future), and resolves it through
  the event loop.
\<close>

record 'a gatt_task =
  gatt_future :: "'a future"
  gatt_address :: address

definition gatt_resolve :: "'a gatt_task \<Rightarrow> address \<Rightarrow> 'a \<Rightarrow> 'a gatt_task callback_result" where
  "gatt_resolve task addr v =
     (if addr \<noteq> gatt_address task then ([], task, None)
      else ([], task\<lparr>gatt_future := call_soon_set_result (gatt_future task) v\<rparr>, None))"

definition on_configure_mtu ::
  "GattStatus gatt_task \<Rightarrow> address \<Rightarrow> nat \<Rightarrow> GattStatus \<Rightarrow> GattStatus gatt_task callback_result" where
  "on_configure_mtu task addr mtu status = gatt_resolve task addr status"

definition on_characteristic_write ::
  "(GattStatus \<times> nat) gatt_task \<Rightarrow> address \<Rightarrow> GattStatus \<Rightarrow> nat \<Rightarrow> (GattStatus \<times> nat) gatt_task callback_result" where
  "on_characteristic_write task addr status handle = gatt_resolve task addr (status, handle)"

definition on_descriptor_write ::
  "(GattStatus \<times> nat) gatt_task \<Rightarrow> address \<Rightarrow> GattStatus \<Rightarrow> nat \<Rightarrow> (GattStatus \<times> nat) gatt_task callback_result" where
  "on_descriptor_write task addr status handle = gatt_resolve task addr (status, handle)"

definition on_characteristic_read ::
  "GattStatus gatt_task \<Rightarrow> address \<Rightarrow> GattStatus \<Rightarrow> nat \<Rightarrow> bytes \<Rightarrow> GattStatus gatt_task callback_result" where
  "on_characteristic_read task addr status handle val = gatt_resolve task addr status"

definition on_descriptor_read ::
  "GattStatus gatt_task \<Rightarrow> address \<Rightarrow> GattStatus \<Rightarrow> nat \<Rightarrow> bytes \<Rightarrow> GattStatus gatt_task callback_result" where
  "on_descriptor_read task addr status handle val = gatt_resolve task addr status"

definition on_search_complete ::
  "(gatt_service list \<times> GattStatus) gatt_task \<Rightarrow> address \<Rightarrow> gatt_service list \<Rightarrow> GattStatus
     \<Rightarrow> (gatt_service list \<times> GattStatus) gatt_task callback_result" where
  "on_search_complete task addr services status = gatt_resolve task addr (services, status)"

definition on_device_properties_changed ::
  "unit gatt_task \<Rightarrow> address \<times> string \<Rightarrow> BtPropertyType list \<Rightarrow> unit gatt_task callback_result" where
  "on_device_properties_changed task remote_device props =
     (if fst remote_device \<noteq> gatt_address task then ([], task, None)
      else if Uuids \<in> set props then
        ([], task\<lparr>gatt_future := call_soon_set_result (gatt_future task) ()\<rparr>, None)
      else ([], task, None))"

definition on_connection_updated ::
  "GattStatus gatt_task \<Rightarrow> address \<Rightarrow> nat \<Rightarrow> nat \<Rightarrow> nat \<Rightarrow> GattStatus \<Rightarrow> GattStatus gatt_task callback_result" where
  "on_connection_updated task addr interval latency timeout status = gatt_resolve task addr status"


section \<open>Request handlers as resumable computations\<close>

text \<open>
  A handler is a coroutine: it runs until it awaits something that has not happened
  yet, and resumes when the stack delivers the event it waits for, when time passes
  (\<open>Tick\<close>: one second; \<^verbatim>\<open>asyncio.wait_for\<close> and \<^verbatim>\<open>asyncio.sleep\<close> count them), or
  when its task is cancelled (\<open>Cancel\<close>: \<^verbatim>\<open>CancelledError\<close> is raised at the pending
  \<^verbatim>\<open>await\<close>). Every other constructor is one callback of the stack with its arguments.
  The task resumes as soon as the future it awaits is resolved, and the consumer of a
  streaming handler takes each yielded response at once, so \<^verbatim>\<open>yield\<close> is an output and
  not a suspension point; a consumer that goes away while the handler is parked at a
  \<^verbatim>\<open>yield\<close> ends it through the same \<^verbatim>\<open>finally\<close> block as a cancellation at its
  next \<^verbatim>\<open>await\<close>. Addresses are taken as the handlers use them, after
  \<^verbatim>\<open>utils.address_from\<close> and \<^verbatim>\<open>utils.connection_from\<close>.
\<close>

datatype event =
    Tick
  | Cancel
  | OnBondStateChanged nat address BondState
  | OnSspRequest "address \<times> string" nat SspVariant nat
  | OnSetPairingConfirmation "string option" bool
  | OnDeviceConnected "address \<times> string"
  | OnDeviceDisconnected "address \<times> string"
  | OnAdvertisingSetStarted nat nat int "GattStatus option"
  | OnScannerRegistered uuid nat GattStatus
  | OnScanResult scan_result
  | OnDeviceFound "address \<times> string"
  | OnDiscoveringChanged bool
  | OnConfigureMtu address nat GattStatus
  | OnCharacteristicWrite address GattStatus nat
  | OnDescriptorWrite address GattStatus nat
  | OnCharacteristicRead address GattStatus nat bytes
  | OnDescriptorRead address GattStatus nat bytes
  | OnSearchComplete address "gatt_service list" GattStatus
  | OnDevicePropertiesChanged "address \<times> string" "BtPropertyType list"
  | OnConnectionUpdated address nat nat nat GattStatus

datatype request =
    FactoryReset
  | Reset
  | ReadLocalAddress
  | Connect address
  | WaitConnection "address option"
  | ConnectLE
  | Disconnect address
  | WaitDisconnection "address option"
  | Advertise bool
  | Scan
  | Inquiry
  | SetDiscoverabilityMode nat
  | SetConnectabilityMode
  | ExchangeMTU address nat
  | WriteAttFromHandle address nat bytes
  | DiscoverServiceByUuid address uuid
  | DiscoverServices address
  | DiscoverServicesSdp address
  | ClearCache address

text \<open>The local variables of the two handlers that keep more than one task alive.\<close>

datatype advertise_phase =
    AwaitStartAdvertising nat nat
  | SleepNotConnectable
  | AwaitConnection
  | SleepBeforeRestart

record advertise_state =
  adv_connectable :: bool
  adv_observers :: "observer list"
  started_ids :: "nat option list"
  adv_connections :: "address list"
  adv_phase :: advertise_phase

datatype write_phase = AwaitCharacteristics | AwaitDescriptors | AwaitWriteAttribute

record write_state =
  write_address :: address
  write_handle :: nat
  write_value :: bytes
  write_attribute :: "(GattStatus \<times> nat) future"
  write_observers :: "observer list"
  write_phase :: write_phase

text \<open>Where a suspended handler waits, with the variables it still needs.\<close>

datatype hstate =
    ConnectS pairing_task
  | WaitConnectionS connection_task
  | WaitDisconnectionS disconnection_task
  | AdvertiseS advertise_state
  | ScanRegisteringS scan_task nat
  | ScanningS scan_task "nat option"
  | InquiryStartingS inquiry_task nat
  | InquiryRunningS "observer list" "address list"
  | ExchangeMTUS "GattStatus gatt_task"
  | WriteAttS write_state
  | DiscoverServicesS "(gatt_service list \<times> GattStatus) gatt_task"
  | DiscoverServicesSdpS "unit gatt_task"
  | ClearCacheS "GattStatus gatt_task"

datatype progress = Suspended hstate | Returned response | Raised error

subsection \<open>The service object\<close>

text \<open>
  The attributes of the \<^verbatim>\<open>HostService\<close> instance, by name. Reading an attribute that
  was never assigned raises \<^verbatim>\<open>AttributeError\<close>.
\<close>

datatype attribute = Object | AddressSet "address set"

type_synonym service = "string \<rightharpoonup> attribute"

definition HostService_init :: service where
  "HostService_init =
     [''server'' \<mapsto> Object, ''bluetooth'' \<mapsto> Object, ''waited_connections'' \<mapsto> AddressSet {}]"

definition getattr :: "service \<Rightarrow> string \<Rightarrow> error + attribute" where
  "getattr self name = (case self name of None \<Rightarrow> Inl AttributeError | Some v \<Rightarrow> Inr v)"

subsection \<open>host.py\<close>

definition FactoryReset_start :: "service \<Rightarrow> call list \<times> progress \<times> service" where
  "FactoryReset_start self =
     ([ServerStop], Returned Empty, self(''waited_connections'' \<mapsto> AddressSet {}))"

definition Reset_start :: "service \<Rightarrow> call list \<times> progress \<times> service" where
  "Reset_start self =
     ([BluetoothReset], Returned Empty, self(''waited_connections'' \<mapsto> AddressSet {}))"

definition ReadLocalAddress_start :: "device \<Rightarrow> call list \<times> progress" where
  "ReadLocalAddress_start bluetooth = ([], Returned (ReadLocalAddressResponse (get_address bluetooth)))"

definition PairingObserver_dispatch :: "device \<Rightarrow> pairing_task \<Rightarrow> event \<Rightarrow> pairing_task callback_result" where
  "PairingObserver_dispatch client task ev =
     (case ev of
        OnBondStateChanged status address state \<Rightarrow> on_bond_state_changed client task status address state
      | OnSspRequest remote_device class_of_device variant passkey \<Rightarrow>
          on_ssp_request task remote_device class_of_device variant passkey
      | OnSetPairingConfirmation err result \<Rightarrow> on_set_pairing_confirmation task err result
      | OnDeviceConnected remote_device \<Rightarrow> PairingObserver_on_device_connected client task remote_device
      | _ \<Rightarrow> ([], task, None))"

definition Connect_start :: "device \<Rightarrow> address \<Rightarrow> call list \<times> progress" where
  "Connect_start bluetooth address =
     (if \<not> is_connected bluetooth address then
        (if is_bonded bluetooth address then
           ([Register adapter_client PairingObserver, ConnectDevice address],
            Suspended (ConnectS \<lparr>connect_device = Pending, pairing_address = address\<rparr>))
         else if \<not> create_bond bluetooth address then
           ([Register adapter_client PairingObserver, CreateBond address,
             Unregister adapter_client PairingObserver], Raised RuntimeError)
         else
           ([Register adapter_client PairingObserver, CreateBond address],
            Suspended (ConnectS \<lparr>connect_device = Pending, pairing_address = address\<rparr>)))
      else ([], Returned (ConnectResponse address)))"

definition Connect_step :: "device \<Rightarrow> pairing_task \<Rightarrow> event \<Rightarrow> call list \<times> progress" where
  "Connect_step bluetooth task ev =
     (case ev of
        Cancel \<Rightarrow> ([Unregister adapter_client PairingObserver], Raised CancelledError)
      | _ \<Rightarrow>
         (case PairingObserver_dispatch bluetooth task ev of (calls, task', _) \<Rightarrow>
            (case connect_device task' of
               Pending \<Rightarrow> (calls, Suspended (ConnectS task'))
             | Done (success, reason) \<Rightarrow>
                 if \<not> success then
                   (calls @ [Unregister adapter_client PairingObserver], Raised RuntimeError)
                 else
                   (calls @ [Unregister adapter_client PairingObserver],
                    Returned (ConnectResponse (pairing_address task'))))))"

definition WaitConnection_start :: "service \<Rightarrow> device \<Rightarrow> address option \<Rightarrow> call list \<times> progress" where
  "WaitConnection_start self bluetooth request_address =
     (case request_address of
        None \<Rightarrow> ([], Raised ValueError)
      | Some address \<Rightarrow>
          (let wait = ([Register adapter_client ConnectionObserver],
                       Suspended (WaitConnectionS \<lparr>wait_connection = Pending, wait_connection_address = address\<rparr>))
           in if \<not> is_connected bluetooth address then wait
              else (case getattr self ''waited_connections'' of
                      Inl e \<Rightarrow> ([], Raised e)
                    | Inr Object \<Rightarrow> ([], Raised TypeError)
                    | Inr (AddressSet waited) \<Rightarrow>
                        if address \<notin> waited then wait
                        else ([], Returned (WaitConnectionResponse address)))))"

definition WaitConnection_step ::
  "service \<Rightarrow> connection_task \<Rightarrow> event \<Rightarrow> call list \<times> progress \<times> service" where
  "WaitConnection_step self task ev =
     (case ev of
        Cancel \<Rightarrow> ([Unregister adapter_client ConnectionObserver], Raised CancelledError, self)
      | OnDeviceConnected remote_device \<Rightarrow>
         (case ConnectionObserver_on_device_connected task remote_device of (_, task', _) \<Rightarrow>
            (case wait_connection task' of
               Pending \<Rightarrow> ([], Suspended (WaitConnectionS task'), self)
             | Done _ \<Rightarrow>
                (case getattr self ''waited_connection'' of
                   Inl e \<Rightarrow> ([Unregister adapter_client ConnectionObserver], Raised e, self)
                 | Inr Object \<Rightarrow> ([Unregister adapter_client ConnectionObserver], Raised AttributeError, self)
                 | Inr (AddressSet waited) \<Rightarrow>
                     ([Unregister adapter_client ConnectionObserver],
                      Returned (WaitConnectionResponse (wait_connection_address task')),
                      self(''waited_connection'' \<mapsto> AddressSet (insert (wait_connection_address task') waited))))))
      | _ \<Rightarrow> ([], Suspended (WaitConnectionS task), self))"

definition Disconnect_start :: "device \<Rightarrow> address \<Rightarrow> call list \<times> progress" where
  "Disconnect_start bluetooth address =
     (if is_connected bluetooth address then ([DisconnectDevice address], Returned Empty)
      else ([], Returned Empty))"

definition WaitDisconnection_start :: "device \<Rightarrow> address option \<Rightarrow> call list \<times> progress" where
  "WaitDisconnection_start bluetooth request_address =
     (case request_address of
        None \<Rightarrow> ([], Raised ValueError)
      | Some address \<Rightarrow>
          if is_connected bluetooth address then
            ([Register adapter_client DisconnectionObserver],
             Suspended (WaitDisconnectionS \<lparr>wait_disconnection = Pending, wait_disconnection_address = address\<rparr>))
          else ([], Returned Empty))"

definition WaitDisconnection_step :: "disconnection_task \<Rightarrow> event \<Rightarrow> call list \<times> progress" where
  "WaitDisconnection_step task ev =
     (case ev of
        Cancel \<Rightarrow> ([Unregister adapter_client DisconnectionObserver], Raised CancelledError)
      | OnDeviceDisconnected remote_device \<Rightarrow>
         (case on_device_disconnected task remote_device of (_, task', _) \<Rightarrow>
            (case wait_disconnection task' of
               Pending \<Rightarrow> ([], Suspended (WaitDisconnectionS task'))
             | Done _ \<Rightarrow> ([Unregister adapter_client DisconnectionObserver], Returned Empty)))
      | _ \<Rightarrow> ([], Suspended (WaitDisconnectionS task)))"


text \<open>
  \<^verbatim>\<open>Advertise\<close>. Of the request only \<^verbatim>\<open>connectable\<close> decides what the handler does;
  the advertising parameters and data it passes to \<^verbatim>\<open>start_advertising_set\<close> are left
  out. \<^verbatim>\<open>wait_for\<close> gives the start five seconds. The \<^verbatim>\<open>finally\<close> block
  unregisters every collected observer from both the adapter client and the advertising
  client, then stops every collected advertiser id.
\<close>

definition Advertise_finally :: "advertise_state \<Rightarrow> call list" where
  "Advertise_finally s =
     concat (map (\<lambda>ob. [Unregister adapter_client ob, Unregister advertising_client ob]) (adv_observers s))
     @ map StopAdvertisingSet (started_ids s)"

definition Advertise_get :: "advertise_state \<Rightarrow> call list \<times> progress" where
  "Advertise_get s =
     (case adv_connections s of
        [] \<Rightarrow> ([], Suspended (AdvertiseS (s\<lparr>adv_phase := AwaitConnection\<rparr>)))
      | address # rest \<Rightarrow>
          ([Yield (AdvertiseResponse address)],
           Suspended (AdvertiseS (s\<lparr>adv_connections := rest, adv_phase := SleepBeforeRestart\<rparr>))))"

definition Advertise_after_start :: "advertise_state \<Rightarrow> call list \<times> progress" where
  "Advertise_after_start s =
     (if \<not> adv_connectable s then ([], Suspended (AdvertiseS (s\<lparr>adv_phase := SleepNotConnectable\<rparr>)))
      else Advertise_get s)"

definition Advertise_loop :: "device \<Rightarrow> advertise_state \<Rightarrow> call list \<times> progress" where
  "Advertise_loop bluetooth s =
     (if active_advs bluetooth = [] then
        (let observer = AdvertisingObserver (length (adv_observers s)) in
         ([StartAdvertisingSet, Register advertising_client observer],
          Suspended (AdvertiseS (s\<lparr>adv_observers := adv_observers s @ [observer],
                                   adv_phase := AwaitStartAdvertising (start_advertising_set bluetooth) 5\<rparr>))))
      else Advertise_after_start s)"

definition Advertise_start :: "device \<Rightarrow> bool \<Rightarrow> call list \<times> progress" where
  "Advertise_start bluetooth connectable =
     (let s = \<lparr>adv_connectable = connectable,
                adv_observers = (if connectable then [AdvertiseConnectionObserver] else []),
                started_ids = [], adv_connections = [], adv_phase = SleepBeforeRestart\<rparr>;
          (calls, p) = Advertise_loop bluetooth s
      in ((if connectable then [Register adapter_client AdvertiseConnectionObserver] else []) @ calls, p))"

definition Advertise_step :: "device \<Rightarrow> advertise_state \<Rightarrow> event \<Rightarrow> call list \<times> progress" where
  "Advertise_step bluetooth s ev =
     (case ev of
        Cancel \<Rightarrow> (Advertise_finally s, Raised CancelledError)
      | Tick \<Rightarrow>
         (case adv_phase s of
            AwaitStartAdvertising reg_id remaining \<Rightarrow>
              if remaining \<le> 1 then (Advertise_finally s, Raised TimeoutError)
              else ([], Suspended (AdvertiseS (s\<lparr>adv_phase := AwaitStartAdvertising reg_id (remaining - 1)\<rparr>)))
          | SleepNotConnectable \<Rightarrow> Advertise_loop bluetooth s
          | AwaitConnection \<Rightarrow> ([], Suspended (AdvertiseS s))
          | SleepBeforeRestart \<Rightarrow> Advertise_loop bluetooth s)
      | OnDeviceConnected remote_device \<Rightarrow>
         (if adv_connectable s then
            (let s' = s\<lparr>adv_connections := Advertise_on_device_connected (adv_connections s) remote_device\<rparr>
             in case adv_phase s of
                  AwaitConnection \<Rightarrow> Advertise_get s'
                | _ \<Rightarrow> ([], Suspended (AdvertiseS s')))
          else ([], Suspended (AdvertiseS s)))
      | OnAdvertisingSetStarted reg_id advertiser_id tx_power status \<Rightarrow>
         (case adv_phase s of
            AwaitStartAdvertising awaited remaining \<Rightarrow>
              (case on_advertising_set_started \<lparr>start_advertising = Pending, task_reg_id = awaited\<rparr>
                      reg_id advertiser_id tx_power status of (_, task', _) \<Rightarrow>
                 (case start_advertising task' of
                    Pending \<Rightarrow> ([], Suspended (AdvertiseS s))
                  | Done advertiser_id' \<Rightarrow>
                      Advertise_after_start (s\<lparr>started_ids := started_ids s @ [advertiser_id']\<rparr>)))
          | _ \<Rightarrow> ([], Suspended (AdvertiseS s)))
      | _ \<Rightarrow> ([], Suspended (AdvertiseS s)))"

text \<open>
  \<^verbatim>\<open>Scan\<close>. The yielded response is built from the scan result alone; its fields are
  not spelled out, and \<open>ScanningResponse\<close> carries the scan result. \<^verbatim>\<open>wait_for\<close>
  gives the registration ten seconds.
\<close>

definition Scan_finally :: "nat option \<Rightarrow> call list" where
  "Scan_finally scanner_id =
     (case scanner_id of None \<Rightarrow> [] | Some i \<Rightarrow> [StopScan i]) @ [Unregister scanner_client ScanObserver]"

definition Scan_start :: "device \<Rightarrow> call list \<times> progress" where
  "Scan_start bluetooth =
     ([RegisterScanner, Register scanner_client ScanObserver],
      Suspended (ScanRegisteringS
        \<lparr>register_scanner_future = Pending, scan_uuid = register_scanner bluetooth, scan_results = []\<rparr> 10))"

definition Scan_step_registering :: "scan_task \<Rightarrow> nat \<Rightarrow> event \<Rightarrow> call list \<times> progress" where
  "Scan_step_registering task remaining ev =
     (case ev of
        Cancel \<Rightarrow> (Scan_finally None, Raised CancelledError)
      | Tick \<Rightarrow>
          if remaining \<le> 1 then (Scan_finally None, Raised TimeoutError)
          else ([], Suspended (ScanRegisteringS task (remaining - 1)))
      | OnScannerRegistered uuid scanner_id status \<Rightarrow>
         (case on_scanner_registered task uuid scanner_id status of (_, task', _) \<Rightarrow>
            (case register_scanner_future task' of
               Pending \<Rightarrow> ([], Suspended (ScanRegisteringS task' remaining))
             | Done scanner_id' \<Rightarrow>
                 (StartScan scanner_id' # map (\<lambda>r. Yield (ScanningResponse r)) (scan_results task'),
                  Suspended (ScanningS (task'\<lparr>scan_results := []\<rparr>) scanner_id'))))
      | OnScanResult scan_result \<Rightarrow>
         (case on_scan_result task scan_result of (_, task', _) \<Rightarrow>
            ([], Suspended (ScanRegisteringS task' remaining)))
      | _ \<Rightarrow> ([], Suspended (ScanRegisteringS task remaining)))"

definition Scan_step_scanning :: "scan_task \<Rightarrow> nat option \<Rightarrow> event \<Rightarrow> call list \<times> progress" where
  "Scan_step_scanning task scanner_id ev =
     (case ev of
        Cancel \<Rightarrow> (Scan_finally scanner_id, Raised CancelledError)
      | OnScanResult scan_result \<Rightarrow>
         (case on_scan_result task scan_result of (_, task', _) \<Rightarrow>
            (map (\<lambda>r. Yield (ScanningResponse r)) (scan_results task'),
             Suspended (ScanningS (task'\<lparr>scan_results := []\<rparr>) scanner_id)))
      | _ \<Rightarrow> ([], Suspended (ScanningS task scanner_id)))"

text \<open>
  \<^verbatim>\<open>Inquiry\<close>. \<^verbatim>\<open>wait_for\<close> gives the start of the discovery ten seconds; the
  \<^verbatim>\<open>finally\<close> block stops the discovery whether or not this call started it.
\<close>

definition Inquiry_finally :: "observer list \<Rightarrow> call list" where
  "Inquiry_finally observers = StopDiscovery # map (Unregister adapter_client) observers"

definition Inquiry_loop :: "observer list \<Rightarrow> call list \<times> progress" where
  "Inquiry_loop observers =
     ([Register adapter_client InquiryResultObserver],
      Suspended (InquiryRunningS (observers @ [InquiryResultObserver]) []))"

definition Inquiry_start :: "device \<Rightarrow> call list \<times> progress" where
  "Inquiry_start bluetooth =
     (if \<not> is_discovering bluetooth then
        ([Register adapter_client DiscoveryObserver, StartDiscovery],
         Suspended (InquiryStartingS \<lparr>start_inquiry = Pending, task_discovering = True\<rparr> 10))
      else Inquiry_loop [])"

definition Inquiry_step_starting :: "inquiry_task \<Rightarrow> nat \<Rightarrow> event \<Rightarrow> call list \<times> progress" where
  "Inquiry_step_starting task remaining ev =
     (case ev of
        Cancel \<Rightarrow> (Inquiry_finally [DiscoveryObserver], Raised CancelledError)
      | Tick \<Rightarrow>
          if remaining \<le> 1 then (Inquiry_finally [DiscoveryObserver], Raised TimeoutError)
          else ([], Suspended (InquiryStartingS task (remaining - 1)))
      | OnDiscoveringChanged discovering \<Rightarrow>
         (case on_discovering_changed task discovering of (_, task', _) \<Rightarrow>
            (case start_inquiry task' of
               Pending \<Rightarrow> ([], Suspended (InquiryStartingS task' remaining))
             | Done _ \<Rightarrow> Inquiry_loop [DiscoveryObserver]))
      | _ \<Rightarrow> ([], Suspended (InquiryStartingS task remaining)))"

definition Inquiry_step_running :: "observer list \<Rightarrow> address list \<Rightarrow> event \<Rightarrow> call list \<times> progress" where
  "Inquiry_step_running observers inquiry_results ev =
     (case ev of
        Cancel \<Rightarrow> (Inquiry_finally observers, Raised CancelledError)
      | OnDeviceFound remote_device \<Rightarrow>
          (map (\<lambda>a. Yield (InquiryResponse a)) (on_device_found inquiry_results remote_device),
           Suspended (InquiryRunningS observers []))
      | _ \<Rightarrow> ([], Suspended (InquiryRunningS observers inquiry_results)))"

definition SetDiscoverabilityMode_start :: "nat \<Rightarrow> call list \<times> progress" where
  "SetDiscoverabilityMode_start mode = ([SetDiscoverable mode 600], Returned Empty)"


subsection \<open>gatt.py\<close>

definition WRITE_TYPE_DEFAULT :: nat where
  "WRITE_TYPE_DEFAULT = 2"

definition AUTHENTICATION_NONE :: nat where
  "AUTHENTICATION_NONE = 0"

definition ExchangeMTU_start :: "address \<Rightarrow> nat \<Rightarrow> call list \<times> progress" where
  "ExchangeMTU_start address mtu =
     ([Register gatt_client MTUChangeObserver, ConfigureMtu address mtu],
      Suspended (ExchangeMTUS \<lparr>gatt_future = Pending, gatt_address = address\<rparr>))"

definition ExchangeMTU_step :: "GattStatus gatt_task \<Rightarrow> event \<Rightarrow> call list \<times> progress" where
  "ExchangeMTU_step task ev =
     (case ev of
        Cancel \<Rightarrow> ([Unregister gatt_client MTUChangeObserver], Raised CancelledError)
      | OnConfigureMtu addr mtu status \<Rightarrow>
         (case on_configure_mtu task addr mtu status of (_, task', _) \<Rightarrow>
            (case gatt_future task' of
               Pending \<Rightarrow> ([], Suspended (ExchangeMTUS task'))
             | Done status' \<Rightarrow>
                 if status' \<noteq> SUCCESS then ([Unregister gatt_client MTUChangeObserver], Raised RuntimeError)
                 else ([Unregister gatt_client MTUChangeObserver], Returned ExchangeMTUResponse)))
      | _ \<Rightarrow> ([], Suspended (ExchangeMTUS task)))"

text \<open>
  \<^verbatim>\<open>WriteAttFromHandle\<close>. The write observer is registered first and stays registered
  during both reads, so its future can be resolved before the handler awaits it.
\<close>

definition WriteAtt_finally :: "write_state \<Rightarrow> call list" where
  "WriteAtt_finally s = map (Unregister gatt_client) (write_observers s)"

definition WriteAtt_await_write :: "write_state \<Rightarrow> call list \<times> progress" where
  "WriteAtt_await_write s =
     (case write_attribute s of
        Pending \<Rightarrow> ([], Suspended (WriteAttS (s\<lparr>write_phase := AwaitWriteAttribute\<rparr>)))
      | Done (status, handle) \<Rightarrow> (WriteAtt_finally s, Returned (WriteResponse handle (FromGatt status))))"

definition WriteAttFromHandle_start :: "address \<Rightarrow> nat \<Rightarrow> bytes \<Rightarrow> call list \<times> progress" where
  "WriteAttFromHandle_start address handle val =
     ([Register gatt_client WriteAttObserver,
       Register gatt_client ReadCharacteristicFromHandleObserver,
       ReadCharacteristic address handle AUTHENTICATION_NONE],
      Suspended (WriteAttS
        \<lparr>write_address = address, write_handle = handle, write_value = val, write_attribute = Pending,
         write_observers = [WriteAttObserver, ReadCharacteristicFromHandleObserver],
         write_phase = AwaitCharacteristics\<rparr>))"

definition WriteAtt_write_event :: "write_state \<Rightarrow> (GattStatus \<times> nat) gatt_task callback_result \<Rightarrow> call list \<times> progress" where
  "WriteAtt_write_event s r =
     (case r of (_, task', _) \<Rightarrow>
        (let s' = s\<lparr>write_attribute := gatt_future task'\<rparr> in
         case write_phase s of
           AwaitWriteAttribute \<Rightarrow> WriteAtt_await_write s'
         | _ \<Rightarrow> ([], Suspended (WriteAttS s'))))"

definition WriteAttFromHandle_step :: "write_state \<Rightarrow> event \<Rightarrow> call list \<times> progress" where
  "WriteAttFromHandle_step s ev =
     (case ev of
        Cancel \<Rightarrow> (WriteAtt_finally s, Raised CancelledError)
      | OnCharacteristicWrite addr status handle \<Rightarrow>
          WriteAtt_write_event s
            (on_characteristic_write \<lparr>gatt_future = write_attribute s, gatt_address = write_address s\<rparr>
               addr status handle)
      | OnDescriptorWrite addr status handle \<Rightarrow>
          WriteAtt_write_event s
            (on_descriptor_write \<lparr>gatt_future = write_attribute s, gatt_address = write_address s\<rparr>
               addr status handle)
      | OnCharacteristicRead addr status handle val \<Rightarrow>
         (case write_phase s of
            AwaitCharacteristics \<Rightarrow>
              (case on_characteristic_read \<lparr>gatt_future = Pending, gatt_address = write_address s\<rparr>
                      addr status handle val of (_, task', _) \<Rightarrow>
                 (case gatt_future task' of
                    Pending \<Rightarrow> ([], Suspended (WriteAttS s))
                  | Done char_status \<Rightarrow>
                      if char_status \<noteq> SUCCESS then
                        ([Register gatt_client ReadCharacteristicDescriptorFromHandleObserver,
                          ReadDescriptor (write_address s) (write_handle s) AUTHENTICATION_NONE],
                         Suspended (WriteAttS
                           (s\<lparr>write_observers :=
                                 write_observers s @ [ReadCharacteristicDescriptorFromHandleObserver],
                               write_phase := AwaitDescriptors\<rparr>)))
                      else
                        (case WriteAtt_await_write s of (calls, p) \<Rightarrow>
                           (WriteCharacteristic (write_address s) (write_handle s) WRITE_TYPE_DEFAULT
                              AUTHENTICATION_NONE (write_value s) # calls, p))))
          | _ \<Rightarrow> ([], Suspended (WriteAttS s)))
      | OnDescriptorRead addr status handle val \<Rightarrow>
         (case write_phase s of
            AwaitDescriptors \<Rightarrow>
              (case on_descriptor_read \<lparr>gatt_future = Pending, gatt_address = write_address s\<rparr>
                      addr status handle val of (_, task', _) \<Rightarrow>
                 (case gatt_future task' of
                    Pending \<Rightarrow> ([], Suspended (WriteAttS s))
                  | Done desc_status \<Rightarrow>
                      if desc_status \<noteq> SUCCESS then
                        (WriteAtt_finally s, Returned (WriteResponse (write_handle s) INVALID_HANDLE))
                      else
                        (case WriteAtt_await_write s of (calls, p) \<Rightarrow>
                           (WriteDescriptor (write_address s) (write_handle s) AUTHENTICATION_NONE
                              (write_value s) # calls, p))))
          | _ \<Rightarrow> ([], Suspended (WriteAttS s)))
      | _ \<Rightarrow> ([], Suspended (WriteAttS s)))"

definition DiscoverServiceByUuid_start :: "address \<Rightarrow> uuid \<Rightarrow> call list \<times> progress" where
  "DiscoverServiceByUuid_start address uuid =
     ([BtifGattcDiscoverServiceByUuid address uuid], Returned (DiscoverServicesResponse []))"

definition DiscoverServices_start :: "address \<Rightarrow> call list \<times> progress" where
  "DiscoverServices_start address =
     ([Register gatt_client GattDiscoveryObserver, DiscoverServicesCall address],
      Suspended (DiscoverServicesS \<lparr>gatt_future = Pending, gatt_address = address\<rparr>))"

definition DiscoverServices_step ::
  "(gatt_service list \<times> GattStatus) gatt_task \<Rightarrow> event \<Rightarrow> call list \<times> progress" where
  "DiscoverServices_step task ev =
     (case ev of
        Cancel \<Rightarrow> ([Unregister gatt_client GattDiscoveryObserver], Raised CancelledError)
      | OnSearchComplete addr services status \<Rightarrow>
         (case on_search_complete task addr services status of (_, task', _) \<Rightarrow>
            (case gatt_future task' of
               Pending \<Rightarrow> ([], Suspended (DiscoverServicesS task'))
             | Done (services', status') \<Rightarrow>
                 if status' \<noteq> SUCCESS then ([Unregister gatt_client GattDiscoveryObserver], Raised RuntimeError)
                 else ([Unregister gatt_client GattDiscoveryObserver],
                       Returned (DiscoverServicesResponse services'))))
      | _ \<Rightarrow> ([], Suspended (DiscoverServicesS task)))"

text \<open>
  \<^verbatim>\<open>DiscoverServicesSdp\<close>. The local variables \<^verbatim>\<open>name\<close> and \<^verbatim>\<open>observer\<close> are assigned
  only in the branch that registers the observer; the \<^verbatim>\<open>finally\<close> block reads them
  on every path, and reading an unassigned local raises \<^verbatim>\<open>UnboundLocalError\<close>, a
  \<^verbatim>\<open>NameError\<close>, which replaces the result the \<^verbatim>\<open>try\<close> block was about to give.
\<close>

definition DiscoverServicesSdp_finally :: "observer option \<Rightarrow> progress \<Rightarrow> call list \<times> progress" where
  "DiscoverServicesSdp_finally observer p =
     (case observer of
        None \<Rightarrow> ([], Raised NameError)
      | Some ob \<Rightarrow> ([Unregister adapter_client ob], p))"

definition sdp_response :: "uuid list option \<Rightarrow> response" where
  "sdp_response uuids = DiscoverServicesSdpResponse (case uuids of None \<Rightarrow> [] | Some us \<Rightarrow> us)"

definition DiscoverServicesSdp_start :: "device \<Rightarrow> address \<Rightarrow> call list \<times> progress" where
  "DiscoverServicesSdp_start bluetooth address =
     (let uuids = get_remote_uuids bluetooth address in
      if get_bond_state bluetooth address = BONDING
         \<and> (case uuids of None \<Rightarrow> False | Some us \<Rightarrow> length us = 0) then
        DiscoverServicesSdp_finally None (Returned (DiscoverServicesSdpResponse []))
      else if get_bond_state bluetooth address \<noteq> BONDING then
        (if \<not> fetch_remote bluetooth address then
           (case DiscoverServicesSdp_finally (Some DiscoverySDPObserver) (Raised RuntimeError) of (calls, p) \<Rightarrow>
              ([Register adapter_client DiscoverySDPObserver, FetchRemote address] @ calls, p))
         else
           ([Register adapter_client DiscoverySDPObserver, FetchRemote address],
            Suspended (DiscoverServicesSdpS \<lparr>gatt_future = Pending, gatt_address = address\<rparr>)))
      else DiscoverServicesSdp_finally None (Returned (sdp_response uuids)))"

definition DiscoverServicesSdp_step :: "device \<Rightarrow> unit gatt_task \<Rightarrow> event \<Rightarrow> call list \<times> progress" where
  "DiscoverServicesSdp_step bluetooth task ev =
     (case ev of
        Cancel \<Rightarrow> DiscoverServicesSdp_finally (Some DiscoverySDPObserver) (Raised CancelledError)
      | OnDevicePropertiesChanged remote_device props \<Rightarrow>
         (case on_device_properties_changed task remote_device props of (_, task', _) \<Rightarrow>
            (case gatt_future task' of
               Pending \<Rightarrow> ([], Suspended (DiscoverServicesSdpS task'))
             | Done _ \<Rightarrow>
                 DiscoverServicesSdp_finally (Some DiscoverySDPObserver)
                   (Returned (sdp_response (get_remote_uuids bluetooth (gatt_address task'))))))
      | _ \<Rightarrow> ([], Suspended (DiscoverServicesSdpS task)))"

definition ClearCache_start :: "address \<Rightarrow> call list \<times> progress" where
  "ClearCache_start address =
     ([Register gatt_client ClearCacheObserver, RefreshDevice address],
      Suspended (ClearCacheS \<lparr>gatt_future = Pending, gatt_address = address\<rparr>))"

definition ClearCache_step :: "GattStatus gatt_task \<Rightarrow> event \<Rightarrow> call list \<times> progress" where
  "ClearCache_step task ev =
     (case ev of
        Cancel \<Rightarrow> ([Unregister gatt_client ClearCacheObserver], Raised CancelledError)
      | OnConnectionUpdated addr interval latency timeout status \<Rightarrow>
         (case on_connection_updated task addr interval latency timeout status of (_, task', _) \<Rightarrow>
            (case gatt_future task' of
               Pending \<Rightarrow> ([], Suspended (ClearCacheS task'))
             | Done status' \<Rightarrow>
                 if status' \<noteq> SUCCESS then ([Unregister gatt_client ClearCacheObserver], Raised RuntimeError)
                 else ([Unregister gatt_client ClearCacheObserver], Returned ClearCacheResponse)))
      | _ \<Rightarrow> ([], Suspended (ClearCacheS task)))"

subsection \<open>Running a handler\<close>

text \<open>
  A handler starts on a request and then takes the events in order, each with the
  state of the stack at that moment, until it returns or raises; what comes after
  that no longer reaches it.
\<close>

record config =
  trace :: "call list"
  progress_of :: progress
  service_of :: service

definition keep :: "service \<Rightarrow> call list \<times> progress \<Rightarrow> call list \<times> progress \<times> service" where
  "keep self r = (fst r, snd r, self)"

definition start :: "service \<Rightarrow> device \<Rightarrow> request \<Rightarrow> call list \<times> progress \<times> service" where
  "start self bluetooth request =
     (case request of
        FactoryReset \<Rightarrow> FactoryReset_start self
      | Reset \<Rightarrow> Reset_start self
      | ReadLocalAddress \<Rightarrow> keep self (ReadLocalAddress_start bluetooth)
      | Connect address \<Rightarrow> keep self (Connect_start bluetooth address)
      | WaitConnection address \<Rightarrow> keep self (WaitConnection_start self bluetooth address)
      | ConnectLE \<Rightarrow> ([], Raised NotImplementedError, self)
      | Disconnect address \<Rightarrow> keep self (Disconnect_start bluetooth address)
      | WaitDisconnection address \<Rightarrow> keep self (WaitDisconnection_start bluetooth address)
      | Advertise connectable \<Rightarrow> keep self (Advertise_start bluetooth connectable)
      | Scan \<Rightarrow> keep self (Scan_start bluetooth)
      | Inquiry \<Rightarrow> keep self (Inquiry_start bluetooth)
      | SetDiscoverabilityMode mode \<Rightarrow> keep self (SetDiscoverabilityMode_start mode)
      | SetConnectabilityMode \<Rightarrow> ([], Raised NotImplementedError, self)
      | ExchangeMTU address mtu \<Rightarrow> keep self (ExchangeMTU_start address mtu)
      | WriteAttFromHandle address handle val \<Rightarrow> keep self (WriteAttFromHandle_start address handle val)
      | DiscoverServiceByUuid address uuid \<Rightarrow> keep self (DiscoverServiceByUuid_start address uuid)
      | DiscoverServices address \<Rightarrow> keep self (DiscoverServices_start address)
      | DiscoverServicesSdp address \<Rightarrow> keep self (DiscoverServicesSdp_start bluetooth address)
      | ClearCache address \<Rightarrow> keep self (ClearCache_start address))"

definition step :: "service \<Rightarrow> hstate \<Rightarrow> device \<Rightarrow> event \<Rightarrow> call list \<times> progress \<times> service" where
  "step self s bluetooth ev =
     (case s of
        ConnectS task \<Rightarrow> keep self (Connect_step bluetooth task ev)
      | WaitConnectionS task \<Rightarrow> WaitConnection_step self task ev
      | WaitDisconnectionS task \<Rightarrow> keep self (WaitDisconnection_step task ev)
      | AdvertiseS st \<Rightarrow> keep self (Advertise_step bluetooth st ev)
      | ScanRegisteringS task remaining \<Rightarrow> keep self (Scan_step_registering task remaining ev)
      | ScanningS task scanner_id \<Rightarrow> keep self (Scan_step_scanning task scanner_id ev)
      | InquiryStartingS task remaining \<Rightarrow> keep self (Inquiry_step_starting task remaining ev)
      | InquiryRunningS observers inquiry_results \<Rightarrow> keep self (Inquiry_step_running observers inquiry_results ev)
      | ExchangeMTUS task \<Rightarrow> keep self (ExchangeMTU_step task ev)
      | WriteAttS st \<Rightarrow> keep self (WriteAttFromHandle_step st ev)
      | DiscoverServicesS task \<Rightarrow> keep self (DiscoverServices_step task ev)
      | DiscoverServicesSdpS task \<Rightarrow> keep self (DiscoverServicesSdp_step bluetooth task ev)
      | ClearCacheS task \<Rightarrow> keep self (ClearCache_step task ev))"

definition begin_config :: "service \<Rightarrow> device \<Rightarrow> request \<Rightarrow> config" where
  "begin_config self bluetooth request =
     (case start self bluetooth request of (calls, p, self') \<Rightarrow>
        \<lparr>trace = calls, progress_of = p, service_of = self'\<rparr>)"

fun run :: "config \<Rightarrow> (device \<times> event) list \<Rightarrow> config" where
  "run c [] = c"
| "run c ((bluetooth, ev) # rest) =
     (case progress_of c of
        Suspended s \<Rightarrow>
          (case step (service_of c) s bluetooth ev of (calls, p, self') \<Rightarrow>
             run \<lparr>trace = trace c @ calls, progress_of = p, service_of = self'\<rparr> rest)
      | _ \<Rightarrow> c)"

definition exec :: "service \<Rightarrow> device \<Rightarrow> request \<Rightarrow> (device \<times> event) list \<Rightarrow> config" where
  "exec self bluetooth request events = run (begin_config self bluetooth request) events"


subsection \<open>Delivering events to a registered pairing observer\<close>

text \<open>
  Between its registration and its unregistration the \<^verbatim>\<open>PairingObserver\<close> of one
  \<^verbatim>\<open>Connect\<close> call receives every callback of the adapter client. Each callback runs on
  its own; an exception of one does not keep the next from being delivered.
\<close>

fun PairingObserver_deliver ::
  "pairing_task \<Rightarrow> (device \<times> event) list \<Rightarrow> call list \<times> pairing_task \<times> error list" where
  "PairingObserver_deliver task [] = ([], task, [])"
| "PairingObserver_deliver task ((client, ev) # rest) =
     (case PairingObserver_dispatch client task ev of (calls, task', err) \<Rightarrow>
        (case PairingObserver_deliver task' rest of (calls', task'', errs) \<Rightarrow>
           (calls @ calls', task'', (case err of None \<Rightarrow> [] | Some e \<Rightarrow> [e]) @ errs)))"

subsection \<open>Reading a trace\<close>

fun reg_of :: "call \<Rightarrow> (client \<times> observer) list" where
  "reg_of (Register cl ob) = [(cl, ob)]"
| "reg_of _ = []"

fun unreg_of :: "call \<Rightarrow> (client \<times> observer) list" where
  "unreg_of (Unregister cl ob) = [(cl, ob)]"
| "unreg_of _ = []"

text \<open>
  The \<^verbatim>\<open>register_callback_observer\<close> and \<^verbatim>\<open>unregister_callback_observer\<close> calls of a
  trace, in order, each as the client it was made on and the observer it names.
\<close>

definition registered :: "call list \<Rightarrow> (client \<times> observer) list" where
  "registered calls = concat (map reg_of calls)"

definition unregistered :: "call list \<Rightarrow> (client \<times> observer) list" where
  "unregistered calls = concat (map unreg_of calls)"

definition registers :: "call list \<Rightarrow> nat" where
  "registers calls = length (registered calls)"

definition unregisters :: "call list \<Rightarrow> nat" where
  "unregisters calls = length (unregistered calls)"

fun finished :: "progress \<Rightarrow> bool" where
  "finished (Suspended s) = False"
| "finished _ = True"

text \<open>A stack on which nothing is connected, bonded or running, and every call succeeds.\<close>

definition quiet_device :: device where
  "quiet_device =
     \<lparr>get_address = ''00:00:00:00:00:00'', is_connected = (\<lambda>a. False), is_bonded = (\<lambda>a. False),
      create_bond = (\<lambda>a. True), connect_all_enabled_profiles = (\<lambda>a. True), active_advs = [],
      start_advertising_set = 0, register_scanner = ''u'', is_discovering = False,
      get_remote_uuids = (\<lambda>a. None), get_bond_state = (\<lambda>a. NOT_BONDED), fetch_remote = (\<lambda>a. True)\<rparr>"


subsection \<open>Events a waiting GATT handler does not react to\<close>

text \<open>
  For \<^verbatim>\<open>ExchangeMTU\<close> on an address: every event but a cancellation and an
  \<^verbatim>\<open>on_configure_mtu\<close> for that address. Passing time is among them.
\<close>

definition mtu_silent :: "address \<Rightarrow> event \<Rightarrow> bool" where
  "mtu_silent address ev =
     (case ev of
        Cancel \<Rightarrow> False
      | OnConfigureMtu addr mtu status \<Rightarrow> addr \<noteq> address
      | _ \<Rightarrow> True)"

subsection \<open>Write completions while a write waits\<close>



text \<open>
  A future that is offered a value takes it when it is pending and keeps its own when
  it is done; \<^verbatim>\<open>call_soon_threadsafe\<close> swallows the refusal.
\<close>

definition settle :: "'a future \<Rightarrow> 'a option \<Rightarrow> 'a future" where
  "settle f w = (case f of Done v \<Rightarrow> Done v | Pending \<Rightarrow> (case w of None \<Rightarrow> Pending | Some v \<Rightarrow> Done v))"





subsection \<open>What a suspended handler has registered\<close>

text \<open>
  The observers a suspended handler has registered and not yet unregistered, each with
  the client it was registered on, read off the handler's variables. \<^verbatim>\<open>Advertise\<close>
  registers its connection observer on the adapter client and each advertising
  observer on the advertising client. They serve to state what each step of a handler
  does to the registrations.
\<close>

fun advertise_client_of :: "observer \<Rightarrow> client" where
  "advertise_client_of (AdvertisingObserver k) = advertising_client"
| "advertise_client_of _ = adapter_client"

fun held :: "hstate \<Rightarrow> (client \<times> observer) list" where
  "held (ConnectS task) = [(adapter_client, PairingObserver)]"
| "held (WaitConnectionS task) = [(adapter_client, ConnectionObserver)]"
| "held (WaitDisconnectionS task) = [(adapter_client, DisconnectionObserver)]"
| "held (AdvertiseS s) = map (\<lambda>ob. (advertise_client_of ob, ob)) (adv_observers s)"
| "held (ScanRegisteringS task remaining) = [(scanner_client, ScanObserver)]"
| "held (ScanningS task scanner_id) = [(scanner_client, ScanObserver)]"
| "held (InquiryStartingS task remaining) = [(adapter_client, DiscoveryObserver)]"
| "held (InquiryRunningS observers inquiry_results) = map (Pair adapter_client) observers"
| "held (ExchangeMTUS task) = [(gatt_client, MTUChangeObserver)]"
| "held (WriteAttS s) = map (Pair gatt_client) (write_observers s)"
| "held (DiscoverServicesS task) = [(gatt_client, GattDiscoveryObserver)]"
| "held (DiscoverServicesSdpS task) = [(adapter_client, DiscoverySDPObserver)]"
| "held (ClearCacheS task) = [(gatt_client, ClearCacheObserver)]"

fun unregister_factor :: "hstate \<Rightarrow> nat" where
  "unregister_factor (AdvertiseS s) = 2"
| "unregister_factor _ = 1"

fun request_factor :: "request \<Rightarrow> nat" where
  "request_factor (Advertise connectable) = 2"
| "request_factor _ = 1"

text \<open>
  A step that leaves the handler suspended unregisters nothing and adds what it
  registers to what the handler holds; a step that ends the handler registers nothing
  and unregisters all the handler holds, \<^verbatim>\<open>Advertise\<close> each observer twice.
\<close>

definition balanced_step :: "hstate \<Rightarrow> call list \<times> progress \<Rightarrow> bool" where
  "balanced_step s r =
     (case snd r of
        Suspended s' \<Rightarrow>
          unregistered (fst r) = [] \<and> held s' = held s @ registered (fst r)
          \<and> unregister_factor s' = unregister_factor s
      | _ \<Rightarrow>
          registered (fst r) = [] \<and> set (held s) \<subseteq> set (unregistered (fst r))
          \<and> length (unregistered (fst r)) = unregister_factor s * length (held s))"

definition balanced_config :: "nat \<Rightarrow> config \<Rightarrow> bool" where
  "balanced_config k c =
     (case progress_of c of
        Suspended s \<Rightarrow>
          registered (trace c) = held s \<and> unregistered (trace c) = [] \<and> unregister_factor s = k
      | _ \<Rightarrow>
          set (registered (trace c)) \<subseteq> set (unregistered (trace c))
          \<and> length (unregistered (trace c)) = k * length (registered (trace c)))"

subsection \<open>Device-level activity in a trace\<close>

text \<open>
  The calls that start advertising, scanning and discovery, and the calls that stop
  them.
\<close>

fun is_start :: "call \<Rightarrow> bool" where
  "is_start StartAdvertisingSet = True"
| "is_start (StartScan scanner_id) = True"
| "is_start StartDiscovery = True"
| "is_start _ = False"

fun is_stop :: "call \<Rightarrow> bool" where
  "is_stop (StopAdvertisingSet advertiser_id) = True"
| "is_stop (StopScan scanner_id) = True"
| "is_stop StopDiscovery = True"
| "is_stop _ = False"

definition starts :: "call list \<Rightarrow> call list" where
  "starts calls = filter is_start calls"

definition stops :: "call list \<Rightarrow> call list" where
  "stops calls = filter is_stop calls"

text \<open>
  For a suspended streaming handler: the start calls it has made, and the stop calls its
  \<^verbatim>\<open>finally\<close> block makes when it ends from there, both read off its variables
  (\<^verbatim>\<open>started_ids\<close> and the pending start of \<^verbatim>\<open>Advertise\<close>, \<^verbatim>\<open>scanner_id\<close> of
  \<^verbatim>\<open>Scan\<close>, the discovery observer of \<^verbatim>\<open>Inquiry\<close>). They serve to state what each
  step of a streaming handler does to the activities.
\<close>

datatype handler_kind = AdvertiseK | ScanK | InquiryK | UnaryK

fun kind_of :: "hstate \<Rightarrow> handler_kind" where
  "kind_of (AdvertiseS s) = AdvertiseK"
| "kind_of (ScanRegisteringS task remaining) = ScanK"
| "kind_of (ScanningS task scanner_id) = ScanK"
| "kind_of (InquiryStartingS task remaining) = InquiryK"
| "kind_of (InquiryRunningS observers inquiry_results) = InquiryK"
| "kind_of _ = UnaryK"

fun awaiting_start :: "advertise_phase \<Rightarrow> nat" where
  "awaiting_start (AwaitStartAdvertising reg_id remaining) = 1"
| "awaiting_start _ = 0"

fun begun :: "hstate \<Rightarrow> call list" where
  "begun (AdvertiseS s) =
     replicate (length (started_ids s) + awaiting_start (adv_phase s)) StartAdvertisingSet"
| "begun (ScanningS task scanner_id) = [StartScan scanner_id]"
| "begun (InquiryStartingS task remaining) = [StartDiscovery]"
| "begun (InquiryRunningS observers inquiry_results) =
     (if DiscoveryObserver \<in> set observers then [StartDiscovery] else [])"
| "begun _ = []"

fun owed :: "hstate \<Rightarrow> call list" where
  "owed (AdvertiseS s) = map StopAdvertisingSet (started_ids s)"
| "owed (ScanningS task scanner_id) = (case scanner_id of None \<Rightarrow> [] | Some i \<Rightarrow> [StopScan i])"
| "owed (InquiryStartingS task remaining) = [StopDiscovery]"
| "owed (InquiryRunningS observers inquiry_results) = [StopDiscovery]"
| "owed _ = []"

definition teardown_step :: "hstate \<Rightarrow> call list \<times> progress \<Rightarrow> bool" where
  "teardown_step s r =
     (case snd r of
        Suspended s' \<Rightarrow>
          stops (fst r) = [] \<and> begun s' = begun s @ starts (fst r) \<and> kind_of s' = kind_of s
      | _ \<Rightarrow> starts (fst r) = [] \<and> stops (fst r) = owed s)"

definition teardown_config :: "handler_kind \<Rightarrow> config \<Rightarrow> bool" where
  "teardown_config k c =
     (case progress_of c of
        Suspended s \<Rightarrow> starts (trace c) = begun s \<and> stops (trace c) = [] \<and> kind_of s = k
      | _ \<Rightarrow> (\<exists>s. kind_of s = k \<and> starts (trace c) = begun s \<and> stops (trace c) = owed s))"

section \<open>Properties of the pairing observer\<close>

lemma pairing_set_result_Done:
  "connect_device task = Done v \<Longrightarrow> pairing_set_result calls task w = (calls, task, Some InvalidStateError)"
  by (simp add: pairing_set_result_def set_result_def)

lemmas pairing_callback_defs =
  PairingObserver_dispatch_def on_bond_state_changed_def on_ssp_request_def
  on_set_pairing_confirmation_def PairingObserver_on_device_connected_def

lemma dispatch_Done_keeps:
  "connect_device task = Done v \<Longrightarrow>
   fst (snd (PairingObserver_dispatch client task ev)) = task"
  by (cases ev) (simp_all add: pairing_callback_defs pairing_set_result_Done Let_def)

lemma dispatch_err:
  "snd (snd (PairingObserver_dispatch client task ev)) = Some e \<Longrightarrow> e = InvalidStateError"
  by (cases ev; cases "connect_device task")
     (auto simp add: pairing_callback_defs pairing_set_result_def set_result_def Let_def
        split: if_splits)

lemma dispatch_Done_raises:
  "connect_device task = Done v \<Longrightarrow>
   (snd (snd (PairingObserver_dispatch client task ev)) = Some InvalidStateError) =
   (connect_device (fst (snd (PairingObserver_dispatch client (task\<lparr>connect_device := Pending\<rparr>) ev))) \<noteq> Pending)"
  by (cases ev)
     (simp_all add: pairing_callback_defs pairing_set_result_def set_result_def Let_def)

lemma deliver_Done_keeps:
  "connect_device task = Done v \<Longrightarrow> fst (snd (PairingObserver_deliver task events)) = task"
proof (induction events arbitrary: task)
  case Nil
  then show ?case by simp
next
  case (Cons a events)
  obtain client ev where a: "a = (client, ev)" by (cases a)
  obtain calls task' err where d: "PairingObserver_dispatch client task ev = (calls, task', err)"
    by (cases "PairingObserver_dispatch client task ev")
  have t: "task' = task" using dispatch_Done_keeps[OF Cons.prems, of client ev] d by simp
  show ?case using Cons.IH[OF Cons.prems] a d t by (auto split: prod.splits)
qed

lemma deliver_errors:
  "set (snd (snd (PairingObserver_deliver task events))) \<subseteq> {InvalidStateError}"
proof (induction events arbitrary: task)
  case Nil
  then show ?case by simp
next
  case (Cons a events)
  obtain client ev where a: "a = (client, ev)" by (cases a)
  obtain calls task' err where d: "PairingObserver_dispatch client task ev = (calls, task', err)"
    by (cases "PairingObserver_dispatch client task ev")
  have e: "err = None \<or> err = Some InvalidStateError"
    using dispatch_err[of client task ev] d by (cases err) auto
  show ?case using Cons.IH[of task'] a d e by (auto split: prod.splits)
qed

lemma deliver_Cons_task:
  "fst (snd (PairingObserver_deliver task ((client, ev) # rest))) =
   fst (snd (PairingObserver_deliver (fst (snd (PairingObserver_dispatch client task ev))) rest))"
  by (simp split: prod.splits)

lemma deliver_append:
  "fst (snd (PairingObserver_deliver task (es1 @ es2))) =
   fst (snd (PairingObserver_deliver (fst (snd (PairingObserver_deliver task es1))) es2))"
proof (induction es1 arbitrary: task)
  case Nil
  then show ?case by simp
next
  case (Cons a es1)
  obtain client ev where a: "a = (client, ev)" by (cases a)
  show ?case unfolding a append_Cons deliver_Cons_task by (rule Cons.IH)
qed

lemma dispatch_calls_same:
  "fst (PairingObserver_dispatch client task ev) =
   fst (PairingObserver_dispatch client (task\<lparr>connect_device := Pending\<rparr>) ev)"
  by (cases ev)
     (simp_all add: pairing_callback_defs pairing_set_result_def set_result_def Let_def
        split: future.splits)

lemma resolved_pairing_task:
  "connect_device ptask = Done pv \<Longrightarrow>
      on_bond_state_changed client ptask status address state =
        (if address = pairing_address ptask \<and> status = 0 \<and> state = BONDED \<and> \<not> is_connected client address
         then [ConnectAllEnabledProfiles address] else [],
         ptask,
         if address = pairing_address ptask
            \<and> (status \<noteq> 0
                \<or> state = BONDED
                  \<and> (is_connected client address \<or> \<not> connect_all_enabled_profiles client address))
         then Some InvalidStateError else None)
    \<and> on_ssp_request ptask remote_device class_of_device variant passkey =
        (if fst remote_device = pairing_address ptask \<and> variant = CONSENT
         then [SetPairingConfirmation (fst remote_device) True] else [],
         ptask, None)
    \<and> on_set_pairing_confirmation ptask err result =
        ([], ptask, if truthy err \<or> \<not> result then Some InvalidStateError else None)
    \<and> PairingObserver_on_device_connected client ptask remote_device =
        ([], ptask,
         if fst remote_device = pairing_address ptask \<and> is_bonded client (fst remote_device)
         then Some InvalidStateError else None)"
  by (auto simp add: on_bond_state_changed_def on_ssp_request_def on_set_pairing_confirmation_def
        PairingObserver_on_device_connected_def pairing_set_result_Done Let_def)

lemma resolved_tasks_kept:
  "(connect_device ptask = Done pv \<longrightarrow>
      on_bond_state_changed client ptask status address state =
        (if address = pairing_address ptask \<and> status = 0 \<and> state = BONDED \<and> \<not> is_connected client address
         then [ConnectAllEnabledProfiles address] else [],
         ptask,
         if address = pairing_address ptask
            \<and> (status \<noteq> 0
                \<or> state = BONDED
                  \<and> (is_connected client address \<or> \<not> connect_all_enabled_profiles client address))
         then Some InvalidStateError else None)
    \<and> on_ssp_request ptask remote_device class_of_device variant passkey =
        (if fst remote_device = pairing_address ptask \<and> variant = CONSENT
         then [SetPairingConfirmation (fst remote_device) True] else [],
         ptask, None)
    \<and> on_set_pairing_confirmation ptask err result =
        ([], ptask, if truthy err \<or> \<not> result then Some InvalidStateError else None)
    \<and> PairingObserver_on_device_connected client ptask remote_device =
        ([], ptask,
         if fst remote_device = pairing_address ptask \<and> is_bonded client (fst remote_device)
         then Some InvalidStateError else None))
   \<and> (wait_connection ctask = Done cv \<longrightarrow>
      ConnectionObserver_on_device_connected ctask remote_device =
        ([], ctask,
         if fst remote_device = wait_connection_address ctask then Some InvalidStateError else None))
   \<and> (wait_disconnection dtask = Done dv \<longrightarrow>
      on_device_disconnected dtask remote_device =
        ([], dtask,
         if fst remote_device = wait_disconnection_address dtask then Some InvalidStateError else None))
   \<and> (start_advertising atask = Done av \<longrightarrow>
      on_advertising_set_started atask reg_id advertiser_id tx_power adv_status =
        ([], atask, if reg_id = task_reg_id atask then Some InvalidStateError else None))
   \<and> (register_scanner_future stask = Done sv \<longrightarrow>
      on_scanner_registered stask uuid scanner_id gstatus =
        ([], stask, if uuid = scan_uuid stask then Some InvalidStateError else None))
   \<and> (start_inquiry itask = Done iv \<longrightarrow>
      on_discovering_changed itask discovering =
        ([], itask, if discovering = task_discovering itask then Some InvalidStateError else None))
   \<and> (gatt_future mtask = Done mv \<longrightarrow>
      on_configure_mtu mtask address mtu gstatus = ([], mtask, None)
    \<and> on_characteristic_read mtask address gstatus handle val = ([], mtask, None)
    \<and> on_descriptor_read mtask address gstatus handle val = ([], mtask, None)
    \<and> on_connection_updated mtask address interval latency timeout gstatus = ([], mtask, None))
   \<and> (gatt_future wtask = Done wv \<longrightarrow>
      on_characteristic_write wtask address gstatus handle = ([], wtask, None)
    \<and> on_descriptor_write wtask address gstatus handle = ([], wtask, None))
   \<and> (gatt_future vtask = Done vv \<longrightarrow>
      on_search_complete vtask address services gstatus = ([], vtask, None))
   \<and> (gatt_future utask = Done uv \<longrightarrow>
      on_device_properties_changed utask remote_device props = ([], utask, None))"
  using resolved_pairing_task[of ptask pv client status address state remote_device
      class_of_device variant passkey err result]
  by (simp add: ConnectionObserver_on_device_connected_def on_device_disconnected_def
        on_advertising_set_started_def on_scanner_registered_def on_discovering_changed_def
        on_configure_mtu_def on_characteristic_read_def on_descriptor_read_def
        on_connection_updated_def on_characteristic_write_def on_descriptor_write_def
        on_search_complete_def on_device_properties_changed_def gatt_resolve_def
        call_soon_set_result_def set_result_def Let_def)

text \<open>
  Claim C1, where it fails. The pairing future of \<^verbatim>\<open>Connect\<close> is resolved by
  \<^verbatim>\<open>on_bond_state_changed\<close> (bonded, device already connected); the observer is still
  registered when \<^verbatim>\<open>on_device_connected\<close> arrives for the same, bonded device. The
  second callback does not overwrite the result, but it is no silent no-op either: its
  \<^verbatim>\<open>set_result\<close> raises \<^verbatim>\<open>InvalidStateError\<close>.
\<close>

theorem late_device_connected_raises:
  "PairingObserver_deliver \<lparr>connect_device = Pending, pairing_address = ''AA''\<rparr>
     [(quiet_device\<lparr>is_connected := (\<lambda>a. True)\<rparr>, OnBondStateChanged 0 ''AA'' BONDED),
      (quiet_device\<lparr>is_bonded := (\<lambda>a. True)\<rparr>, OnDeviceConnected (''AA'', ''peer''))]
   = ([], \<lparr>connect_device = Done (True, None), pairing_address = ''AA''\<rparr>, [InvalidStateError])"
  by (simp add: PairingObserver_dispatch_def on_bond_state_changed_def
        PairingObserver_on_device_connected_def pairing_set_result_def set_result_def quiet_device_def)

text \<open>
  Claim C1, amended. Once the events delivered to the pairing observer have resolved
  the future with \<open>v\<close>, every longer delivery leaves it resolved with \<open>v\<close>: the
  first resolution determines the result. The only exception a callback ever raises is
  \<^verbatim>\<open>InvalidStateError\<close>. A callback on the resolved task leaves the task as it is, it
  raises \<^verbatim>\<open>InvalidStateError\<close> exactly when the same callback would have resolved the
  future, had it still been pending, and it makes the calls to the stack that it would
  have made then: a late \<^verbatim>\<open>on_bond_state_changed\<close> for the bonded, unconnected device
  still calls \<^verbatim>\<open>connect_all_enabled_profiles\<close>, a late \<^verbatim>\<open>on_ssp_request\<close> with
  \<^verbatim>\<open>CONSENT\<close> still calls \<^verbatim>\<open>set_pairing_confirmation\<close>. Every other observer of
  \<^verbatim>\<open>host.py\<close> that resolves a future does the same: on a task whose future is resolved a
  callback with the key of the task leaves the task as it is, makes no call and raises
  \<^verbatim>\<open>InvalidStateError\<close>, and a callback with another key does nothing. The observers
  of \<^verbatim>\<open>gatt.py\<close>, which resolve through the event loop, leave the resolved task as it
  is, make no call and raise nothing.
\<close>

theorem first_resolution_wins:
  "connect_device (fst (snd (PairingObserver_deliver task events))) = Done v \<Longrightarrow>
     connect_device (fst (snd (PairingObserver_deliver task (events @ later)))) = Done v
   \<and> set (snd (snd (PairingObserver_deliver task (events @ later)))) \<subseteq> {InvalidStateError}
   \<and> fst (snd (PairingObserver_dispatch client (fst (snd (PairingObserver_deliver task events))) ev))
       = fst (snd (PairingObserver_deliver task events))
   \<and> ((snd (snd (PairingObserver_dispatch client (fst (snd (PairingObserver_deliver task events))) ev))
         = Some InvalidStateError) =
       (connect_device (fst (snd (PairingObserver_dispatch client
           ((fst (snd (PairingObserver_deliver task events)))\<lparr>connect_device := Pending\<rparr>) ev))) \<noteq> Pending))
   \<and> fst (PairingObserver_dispatch client (fst (snd (PairingObserver_deliver task events))) ev) =
       fst (PairingObserver_dispatch client
           ((fst (snd (PairingObserver_deliver task events)))\<lparr>connect_device := Pending\<rparr>) ev)
   \<and> ((connect_device ptask = Done pv \<longrightarrow>
      on_bond_state_changed client ptask status address state =
        (if address = pairing_address ptask \<and> status = 0 \<and> state = BONDED \<and> \<not> is_connected client address
         then [ConnectAllEnabledProfiles address] else [],
         ptask,
         if address = pairing_address ptask
            \<and> (status \<noteq> 0
                \<or> state = BONDED
                  \<and> (is_connected client address \<or> \<not> connect_all_enabled_profiles client address))
         then Some InvalidStateError else None)
    \<and> on_ssp_request ptask remote_device class_of_device variant passkey =
        (if fst remote_device = pairing_address ptask \<and> variant = CONSENT
         then [SetPairingConfirmation (fst remote_device) True] else [],
         ptask, None)
    \<and> on_set_pairing_confirmation ptask err result =
        ([], ptask, if truthy err \<or> \<not> result then Some InvalidStateError else None)
    \<and> PairingObserver_on_device_connected client ptask remote_device =
        ([], ptask,
         if fst remote_device = pairing_address ptask \<and> is_bonded client (fst remote_device)
         then Some InvalidStateError else None))
   \<and> (wait_connection ctask = Done cv \<longrightarrow>
      ConnectionObserver_on_device_connected ctask remote_device =
        ([], ctask,
         if fst remote_device = wait_connection_address ctask then Some InvalidStateError else None))
   \<and> (wait_disconnection dtask = Done dv \<longrightarrow>
      on_device_disconnected dtask remote_device =
        ([], dtask,
         if fst remote_device = wait_disconnection_address dtask then Some InvalidStateError else None))
   \<and> (start_advertising atask = Done av \<longrightarrow>
      on_advertising_set_started atask reg_id advertiser_id tx_power adv_status =
        ([], atask, if reg_id = task_reg_id atask then Some InvalidStateError else None))
   \<and> (register_scanner_future stask = Done sv \<longrightarrow>
      on_scanner_registered stask uuid scanner_id gstatus =
        ([], stask, if uuid = scan_uuid stask then Some InvalidStateError else None))
   \<and> (start_inquiry itask = Done iv \<longrightarrow>
      on_discovering_changed itask discovering =
        ([], itask, if discovering = task_discovering itask then Some InvalidStateError else None))
   \<and> (gatt_future mtask = Done mv \<longrightarrow>
      on_configure_mtu mtask address mtu gstatus = ([], mtask, None)
    \<and> on_characteristic_read mtask address gstatus handle val = ([], mtask, None)
    \<and> on_descriptor_read mtask address gstatus handle val = ([], mtask, None)
    \<and> on_connection_updated mtask address interval latency timeout gstatus = ([], mtask, None))
   \<and> (gatt_future wtask = Done wv \<longrightarrow>
      on_characteristic_write wtask address gstatus handle = ([], wtask, None)
    \<and> on_descriptor_write wtask address gstatus handle = ([], wtask, None))
   \<and> (gatt_future vtask = Done vv \<longrightarrow>
      on_search_complete vtask address services gstatus = ([], vtask, None))
   \<and> (gatt_future utask = Done uv \<longrightarrow>
      on_device_properties_changed utask remote_device props = ([], utask, None)))"
proof -
  assume res: "connect_device (fst (snd (PairingObserver_deliver task events))) = Done v"
  let ?t = "fst (snd (PairingObserver_deliver task events))"
  have 1: "connect_device (fst (snd (PairingObserver_deliver task (events @ later)))) = Done v"
    using deliver_Done_keeps[OF res, of later] res by (simp add: deliver_append)
  have 2: "set (snd (snd (PairingObserver_deliver task (events @ later)))) \<subseteq> {InvalidStateError}"
    by (rule deliver_errors)
  have 3: "fst (snd (PairingObserver_dispatch client ?t ev)) = ?t"
    by (rule dispatch_Done_keeps[OF res])
  have 4: "(snd (snd (PairingObserver_dispatch client ?t ev)) = Some InvalidStateError) =
       (connect_device (fst (snd (PairingObserver_dispatch client (?t\<lparr>connect_device := Pending\<rparr>) ev))) \<noteq> Pending)"
    by (rule dispatch_Done_raises[OF res])
  have 5: "fst (PairingObserver_dispatch client ?t ev) =
       fst (PairingObserver_dispatch client (?t\<lparr>connect_device := Pending\<rparr>) ev)"
    by (rule dispatch_calls_same)
  have 6: "(connect_device ptask = Done pv \<longrightarrow>
      on_bond_state_changed client ptask status address state =
        (if address = pairing_address ptask \<and> status = 0 \<and> state = BONDED \<and> \<not> is_connected client address
         then [ConnectAllEnabledProfiles address] else [],
         ptask,
         if address = pairing_address ptask
            \<and> (status \<noteq> 0
                \<or> state = BONDED
                  \<and> (is_connected client address \<or> \<not> connect_all_enabled_profiles client address))
         then Some InvalidStateError else None)
    \<and> on_ssp_request ptask remote_device class_of_device variant passkey =
        (if fst remote_device = pairing_address ptask \<and> variant = CONSENT
         then [SetPairingConfirmation (fst remote_device) True] else [],
         ptask, None)
    \<and> on_set_pairing_confirmation ptask err result =
        ([], ptask, if truthy err \<or> \<not> result then Some InvalidStateError else None)
    \<and> PairingObserver_on_device_connected client ptask remote_device =
        ([], ptask,
         if fst remote_device = pairing_address ptask \<and> is_bonded client (fst remote_device)
         then Some InvalidStateError else None))
   \<and> (wait_connection ctask = Done cv \<longrightarrow>
      ConnectionObserver_on_device_connected ctask remote_device =
        ([], ctask,
         if fst remote_device = wait_connection_address ctask then Some InvalidStateError else None))
   \<and> (wait_disconnection dtask = Done dv \<longrightarrow>
      on_device_disconnected dtask remote_device =
        ([], dtask,
         if fst remote_device = wait_disconnection_address dtask then Some InvalidStateError else None))
   \<and> (start_advertising atask = Done av \<longrightarrow>
      on_advertising_set_started atask reg_id advertiser_id tx_power adv_status =
        ([], atask, if reg_id = task_reg_id atask then Some InvalidStateError else None))
   \<and> (register_scanner_future stask = Done sv \<longrightarrow>
      on_scanner_registered stask uuid scanner_id gstatus =
        ([], stask, if uuid = scan_uuid stask then Some InvalidStateError else None))
   \<and> (start_inquiry itask = Done iv \<longrightarrow>
      on_discovering_changed itask discovering =
        ([], itask, if discovering = task_discovering itask then Some InvalidStateError else None))
   \<and> (gatt_future mtask = Done mv \<longrightarrow>
      on_configure_mtu mtask address mtu gstatus = ([], mtask, None)
    \<and> on_characteristic_read mtask address gstatus handle val = ([], mtask, None)
    \<and> on_descriptor_read mtask address gstatus handle val = ([], mtask, None)
    \<and> on_connection_updated mtask address interval latency timeout gstatus = ([], mtask, None))
   \<and> (gatt_future wtask = Done wv \<longrightarrow>
      on_characteristic_write wtask address gstatus handle = ([], wtask, None)
    \<and> on_descriptor_write wtask address gstatus handle = ([], wtask, None))
   \<and> (gatt_future vtask = Done vv \<longrightarrow>
      on_search_complete vtask address services gstatus = ([], vtask, None))
   \<and> (gatt_future utask = Done uv \<longrightarrow>
      on_device_properties_changed utask remote_device props = ([], utask, None))"
    by (rule resolved_tasks_kept)
  show ?thesis by (rule conjI[OF 1 conjI[OF 2 conjI[OF 3 conjI[OF 4 conjI[OF 5 6]]]]])
qed

theorem first_resolution_wins_witness:
  "connect_device (fst (snd (PairingObserver_deliver \<lparr>connect_device = Pending, pairing_address = ''AA''\<rparr>
      [(quiet_device, OnBondStateChanged 7 ''AA'' BONDING)]))) = Done (False, Some (FailedToBond 7 BONDING))
   \<and> connect_device (fst (snd (PairingObserver_deliver \<lparr>connect_device = Pending, pairing_address = ''AA''\<rparr>
      ([(quiet_device, OnBondStateChanged 7 ''AA'' BONDING)]
       @ [(quiet_device\<lparr>is_bonded := (\<lambda>a. True)\<rparr>, OnDeviceConnected (''AA'', ''peer''))]))))
      = Done (False, Some (FailedToBond 7 BONDING))
   \<and> connect_device \<lparr>connect_device = Done (True, None), pairing_address = ''AA''\<rparr> = Done (True, None)
   \<and> on_bond_state_changed quiet_device \<lparr>connect_device = Done (True, None), pairing_address = ''AA''\<rparr>
        0 ''AA'' BONDED
      = ([ConnectAllEnabledProfiles ''AA''],
         \<lparr>connect_device = Done (True, None), pairing_address = ''AA''\<rparr>, None)
   \<and> on_ssp_request \<lparr>connect_device = Done (True, None), pairing_address = ''AA''\<rparr>
        (''AA'', ''peer'') 0 CONSENT 0
      = ([SetPairingConfirmation ''AA'' True],
         \<lparr>connect_device = Done (True, None), pairing_address = ''AA''\<rparr>, None)
   \<and> wait_connection \<lparr>wait_connection = Done ''AA'', wait_connection_address = ''AA''\<rparr> = Done ''AA''
   \<and> ConnectionObserver_on_device_connected
        \<lparr>wait_connection = Done ''AA'', wait_connection_address = ''AA''\<rparr> (''AA'', ''peer'')
      = ([], \<lparr>wait_connection = Done ''AA'', wait_connection_address = ''AA''\<rparr>, Some InvalidStateError)
   \<and> gatt_future \<lparr>gatt_future = Done SUCCESS, gatt_address = ''AA''\<rparr> = Done SUCCESS
   \<and> on_configure_mtu \<lparr>gatt_future = Done SUCCESS, gatt_address = ''AA''\<rparr> ''AA'' 23 (GattStatusOther 1)
      = ([], \<lparr>gatt_future = Done SUCCESS, gatt_address = ''AA''\<rparr>, None)"
proof -
  have h: "connect_device (fst (snd (PairingObserver_deliver \<lparr>connect_device = Pending, pairing_address = ''AA''\<rparr>
      [(quiet_device, OnBondStateChanged 7 ''AA'' BONDING)]))) = Done (False, Some (FailedToBond 7 BONDING))"
    by (simp add: PairingObserver_dispatch_def on_bond_state_changed_def pairing_set_result_def
          set_result_def)
  note t = first_resolution_wins[OF h,
      of "[(quiet_device\<lparr>is_bonded := (\<lambda>a. True)\<rparr>, OnDeviceConnected (''AA'', ''peer''))]"
         quiet_device Tick]
  have a: "connect_device (fst (snd (PairingObserver_deliver \<lparr>connect_device = Pending, pairing_address = ''AA''\<rparr>
      ([(quiet_device, OnBondStateChanged 7 ''AA'' BONDING)]
       @ [(quiet_device\<lparr>is_bonded := (\<lambda>a. True)\<rparr>, OnDeviceConnected (''AA'', ''peer''))]))))
      = Done (False, Some (FailedToBond 7 BONDING))"
    by (rule conjunct1[OF t])
  note rest = t[THEN conjunct2, THEN conjunct2, THEN conjunct2, THEN conjunct2, THEN conjunct2]
  have p: "connect_device \<lparr>connect_device = Done (True, None), pairing_address = ''AA''\<rparr> = Done (True, None)"
    by simp
  note kp = rest[THEN conjunct1, rule_format, OF p]
  have b: "on_bond_state_changed quiet_device \<lparr>connect_device = Done (True, None), pairing_address = ''AA''\<rparr>
        0 ''AA'' BONDED
      = ([ConnectAllEnabledProfiles ''AA''],
         \<lparr>connect_device = Done (True, None), pairing_address = ''AA''\<rparr>, None)"
    using kp[THEN conjunct1, of 0 "''AA''" BONDED]
    by (simp add: quiet_device_def)
  have c: "on_ssp_request \<lparr>connect_device = Done (True, None), pairing_address = ''AA''\<rparr>
        (''AA'', ''peer'') 0 CONSENT 0
      = ([SetPairingConfirmation ''AA'' True],
         \<lparr>connect_device = Done (True, None), pairing_address = ''AA''\<rparr>, None)"
    using kp[THEN conjunct2, THEN conjunct1, of "(''AA'', ''peer'')" 0 CONSENT 0]
    by simp
  have w: "wait_connection \<lparr>wait_connection = Done ''AA'', wait_connection_address = ''AA''\<rparr> = Done ''AA''"
    by simp
  have d: "ConnectionObserver_on_device_connected
        \<lparr>wait_connection = Done ''AA'', wait_connection_address = ''AA''\<rparr> (''AA'', ''peer'')
      = ([], \<lparr>wait_connection = Done ''AA'', wait_connection_address = ''AA''\<rparr>, Some InvalidStateError)"
    using rest[THEN conjunct2, THEN conjunct1, rule_format, OF w, of "(''AA'', ''peer'')"]
    by simp
  have g: "gatt_future \<lparr>gatt_future = Done SUCCESS, gatt_address = ''AA''\<rparr> = Done SUCCESS"
    by simp
  note k = rest[THEN conjunct2, THEN conjunct2, THEN conjunct2, THEN conjunct2, THEN conjunct2,
      THEN conjunct2, THEN conjunct1, rule_format, OF g, THEN conjunct1]
  have e: "on_configure_mtu \<lparr>gatt_future = Done SUCCESS, gatt_address = ''AA''\<rparr> ''AA'' 23 (GattStatusOther 1)
      = ([], \<lparr>gatt_future = Done SUCCESS, gatt_address = ''AA''\<rparr>, None)"
    by (rule k)
  show ?thesis
    by (rule conjI[OF h conjI[OF a conjI[OF p conjI[OF b conjI[OF c conjI[OF w conjI[OF d conjI[OF g e]]]]]]]])
qed

text \<open>
  Claim C3. \<^verbatim>\<open>on_bond_state_changed\<close> for the requested address: a non-zero status
  makes no call at all and resolves the pending operation as a failure; status zero
  and \<^verbatim>\<open>BONDED\<close> with the device connected resolves success; status zero and
  \<^verbatim>\<open>BONDED\<close> with the device not connected calls \<^verbatim>\<open>connect_all_enabled_profiles\<close>, and
  resolves failure at once when that call fails (and leaves the operation pending when
  it succeeds).
\<close>

theorem bond_state_changed_transition:
  "address = pairing_address task \<Longrightarrow>
     (status \<noteq> 0 \<longrightarrow> fst (on_bond_state_changed client task status address state) = [])
   \<and> (connect_device task = Pending \<longrightarrow>
        (status \<noteq> 0 \<longrightarrow>
           on_bond_state_changed client task status address state =
             ([], task\<lparr>connect_device := Done (False, Some (FailedToBond status state))\<rparr>, None))
      \<and> (status = 0 \<and> state = BONDED \<and> is_connected client address \<longrightarrow>
           on_bond_state_changed client task status address state =
             ([], task\<lparr>connect_device := Done (True, None)\<rparr>, None))
      \<and> (status = 0 \<and> state = BONDED \<and> \<not> is_connected client address
            \<and> connect_all_enabled_profiles client address \<longrightarrow>
           on_bond_state_changed client task status address state =
             ([ConnectAllEnabledProfiles address], task, None))
      \<and> (status = 0 \<and> state = BONDED \<and> \<not> is_connected client address
            \<and> \<not> connect_all_enabled_profiles client address \<longrightarrow>
           on_bond_state_changed client task status address state =
             ([ConnectAllEnabledProfiles address],
              task\<lparr>connect_device := Done (False, Some FailedConnectAllEnabledProfiles)\<rparr>, None)))"
  by (simp add: on_bond_state_changed_def pairing_set_result_def set_result_def split: future.splits)

theorem bond_state_changed_transition_witness:
  "''AA'' = pairing_address \<lparr>connect_device = Pending, pairing_address = ''AA''\<rparr>
   \<and> on_bond_state_changed quiet_device \<lparr>connect_device = Pending, pairing_address = ''AA''\<rparr> 3 ''AA'' BONDED
       = ([], \<lparr>connect_device = Done (False, Some (FailedToBond 3 BONDED)), pairing_address = ''AA''\<rparr>, None)
   \<and> on_bond_state_changed (quiet_device\<lparr>is_connected := (\<lambda>a. True)\<rparr>)
         \<lparr>connect_device = Pending, pairing_address = ''AA''\<rparr> 0 ''AA'' BONDED
       = ([], \<lparr>connect_device = Done (True, None), pairing_address = ''AA''\<rparr>, None)
   \<and> on_bond_state_changed quiet_device \<lparr>connect_device = Pending, pairing_address = ''AA''\<rparr> 0 ''AA'' BONDED
       = ([ConnectAllEnabledProfiles ''AA''], \<lparr>connect_device = Pending, pairing_address = ''AA''\<rparr>, None)
   \<and> on_bond_state_changed (quiet_device\<lparr>connect_all_enabled_profiles := (\<lambda>a. False)\<rparr>)
         \<lparr>connect_device = Pending, pairing_address = ''AA''\<rparr> 0 ''AA'' BONDED
       = ([ConnectAllEnabledProfiles ''AA''],
          \<lparr>connect_device = Done (False, Some FailedConnectAllEnabledProfiles), pairing_address = ''AA''\<rparr>, None)"
proof -
  let ?t = "\<lparr>connect_device = Pending, pairing_address = ''AA''\<rparr>"
  have k: "''AA'' = pairing_address ?t" by simp
  note a = bond_state_changed_transition[OF k, of 3 quiet_device BONDED]
  note b = bond_state_changed_transition[OF k, of 0 "quiet_device\<lparr>is_connected := (\<lambda>a. True)\<rparr>" BONDED]
  note c = bond_state_changed_transition[OF k, of 0 quiet_device BONDED]
  note d = bond_state_changed_transition[OF k, of 0
      "quiet_device\<lparr>connect_all_enabled_profiles := (\<lambda>a. False)\<rparr>" BONDED]
  show ?thesis using a b c d by (simp add: quiet_device_def)
qed


section \<open>Key isolation\<close>

text \<open>
  Claim C6. Every callback that receives a correlation key (a device address, a
  registration id, a scanner UUID, the discovering flag) and is delivered with a key
  other than the one its task was created with returns at once: it makes no call, raises
  nothing, and leaves the task (its future, and for the scanner its result queue too) as
  it was. The suspended \<^verbatim>\<open>Connect\<close> and \<^verbatim>\<open>Scan\<close> handlers stay suspended, and
  nothing is yielded.
\<close>

theorem key_isolation:
  "(address \<noteq> pairing_address ptask \<longrightarrow>
      on_bond_state_changed client ptask status address state = ([], ptask, None)
    \<and> on_ssp_request ptask (address, name) class_of_device variant passkey = ([], ptask, None)
    \<and> PairingObserver_on_device_connected client ptask (address, name) = ([], ptask, None))
   \<and> (address \<noteq> pairing_address ptask \<and> connect_device ptask = Pending \<longrightarrow>
      Connect_step client ptask (OnBondStateChanged status address state) = ([], Suspended (ConnectS ptask))
    \<and> Connect_step client ptask (OnDeviceConnected (address, name)) = ([], Suspended (ConnectS ptask)))
   \<and> (address \<noteq> wait_connection_address ctask \<longrightarrow>
      ConnectionObserver_on_device_connected ctask (address, name) = ([], ctask, None))
   \<and> (address \<noteq> wait_disconnection_address dtask \<longrightarrow>
      on_device_disconnected dtask (address, name) = ([], dtask, None))
   \<and> (reg_id \<noteq> task_reg_id atask \<longrightarrow>
      on_advertising_set_started atask reg_id advertiser_id tx_power adv_status = ([], atask, None))
   \<and> (uuid \<noteq> scan_uuid stask \<longrightarrow>
      on_scanner_registered stask uuid scanner_id gstatus = ([], stask, None)
    \<and> Scan_step_scanning stask known_id (OnScannerRegistered uuid scanner_id gstatus)
        = ([], Suspended (ScanningS stask known_id)))
   \<and> (uuid \<noteq> scan_uuid stask \<and> register_scanner_future stask = Pending \<longrightarrow>
      Scan_step_registering stask remaining (OnScannerRegistered uuid scanner_id gstatus)
        = ([], Suspended (ScanRegisteringS stask remaining)))
   \<and> (discovering \<noteq> task_discovering itask \<longrightarrow>
      on_discovering_changed itask discovering = ([], itask, None))
   \<and> (address \<noteq> gatt_address mtask \<longrightarrow>
      on_configure_mtu mtask address mtu gstatus = ([], mtask, None)
    \<and> on_characteristic_read mtask address gstatus handle val = ([], mtask, None)
    \<and> on_descriptor_read mtask address gstatus handle val = ([], mtask, None)
    \<and> on_connection_updated mtask address interval latency timeout gstatus = ([], mtask, None))
   \<and> (address \<noteq> gatt_address wtask \<longrightarrow>
      on_characteristic_write wtask address gstatus handle = ([], wtask, None)
    \<and> on_descriptor_write wtask address gstatus handle = ([], wtask, None))
   \<and> (address \<noteq> gatt_address vtask \<longrightarrow>
      on_search_complete vtask address services gstatus = ([], vtask, None))
   \<and> (address \<noteq> gatt_address utask \<longrightarrow>
      on_device_properties_changed utask (address, name) props = ([], utask, None))"
  by (simp add: on_bond_state_changed_def on_ssp_request_def PairingObserver_on_device_connected_def
        Connect_step_def PairingObserver_dispatch_def
        ConnectionObserver_on_device_connected_def on_device_disconnected_def
        on_advertising_set_started_def on_scanner_registered_def Scan_step_registering_def
        Scan_step_scanning_def on_discovering_changed_def gatt_resolve_def on_configure_mtu_def
        on_characteristic_read_def on_descriptor_read_def on_connection_updated_def
        on_characteristic_write_def on_descriptor_write_def on_search_complete_def
        on_device_properties_changed_def)


theorem key_isolation_witness:
  "on_bond_state_changed quiet_device \<lparr>connect_device = Pending, pairing_address = ''AA''\<rparr> 0 ''BB'' BONDED
     = ([], \<lparr>connect_device = Pending, pairing_address = ''AA''\<rparr>, None)
   \<and> Connect_step quiet_device \<lparr>connect_device = Pending, pairing_address = ''AA''\<rparr>
       (OnBondStateChanged 0 ''BB'' BONDED)
     = ([], Suspended (ConnectS \<lparr>connect_device = Pending, pairing_address = ''AA''\<rparr>))
   \<and> ConnectionObserver_on_device_connected \<lparr>wait_connection = Pending, wait_connection_address = ''AA''\<rparr>
       (''BB'', ''peer'')
     = ([], \<lparr>wait_connection = Pending, wait_connection_address = ''AA''\<rparr>, None)
   \<and> on_device_disconnected \<lparr>wait_disconnection = Pending, wait_disconnection_address = ''AA''\<rparr>
       (''BB'', ''peer'')
     = ([], \<lparr>wait_disconnection = Pending, wait_disconnection_address = ''AA''\<rparr>, None)
   \<and> on_advertising_set_started \<lparr>start_advertising = Pending, task_reg_id = 1\<rparr> 2 0 0 (Some SUCCESS)
     = ([], \<lparr>start_advertising = Pending, task_reg_id = 1\<rparr>, None)
   \<and> on_scanner_registered \<lparr>register_scanner_future = Pending, scan_uuid = ''U'', scan_results = [4]\<rparr>
       ''V'' 9 SUCCESS
     = ([], \<lparr>register_scanner_future = Pending, scan_uuid = ''U'', scan_results = [4]\<rparr>, None)
   \<and> Scan_step_registering \<lparr>register_scanner_future = Pending, scan_uuid = ''U'', scan_results = [4]\<rparr> 10
       (OnScannerRegistered ''V'' 9 SUCCESS)
     = ([], Suspended (ScanRegisteringS
          \<lparr>register_scanner_future = Pending, scan_uuid = ''U'', scan_results = [4]\<rparr> 10))
   \<and> on_discovering_changed \<lparr>start_inquiry = Pending, task_discovering = True\<rparr> False
     = ([], \<lparr>start_inquiry = Pending, task_discovering = True\<rparr>, None)
   \<and> on_configure_mtu \<lparr>gatt_future = Pending, gatt_address = ''AA''\<rparr> ''BB'' 512 SUCCESS
     = ([], \<lparr>gatt_future = Pending, gatt_address = ''AA''\<rparr>, None)
   \<and> on_characteristic_write \<lparr>gatt_future = Pending, gatt_address = ''AA''\<rparr> ''BB'' SUCCESS 3
     = ([], \<lparr>gatt_future = Pending, gatt_address = ''AA''\<rparr>, None)
   \<and> on_search_complete \<lparr>gatt_future = Pending, gatt_address = ''AA''\<rparr> ''BB'' [] SUCCESS
     = ([], \<lparr>gatt_future = Pending, gatt_address = ''AA''\<rparr>, None)
   \<and> on_device_properties_changed \<lparr>gatt_future = Pending, gatt_address = ''AA''\<rparr> (''BB'', ''peer'') [Uuids]
     = ([], \<lparr>gatt_future = Pending, gatt_address = ''AA''\<rparr>, None)"
  using key_isolation[where address = "''BB''" and name = "''peer''"
      and ptask = "\<lparr>connect_device = Pending, pairing_address = ''AA''\<rparr>"
      and client = quiet_device and status = 0 and state = BONDED
      and ctask = "\<lparr>wait_connection = Pending, wait_connection_address = ''AA''\<rparr>"
      and dtask = "\<lparr>wait_disconnection = Pending, wait_disconnection_address = ''AA''\<rparr>"
      and atask = "\<lparr>start_advertising = Pending, task_reg_id = 1\<rparr>" and reg_id = 2
      and advertiser_id = 0 and tx_power = 0 and adv_status = "Some SUCCESS"
      and stask = "\<lparr>register_scanner_future = Pending, scan_uuid = ''U'', scan_results = [4]\<rparr>"
      and uuid = "''V''" and scanner_id = 9 and gstatus = SUCCESS and remaining = 10
      and itask = "\<lparr>start_inquiry = Pending, task_discovering = True\<rparr>" and discovering = False
      and mtask = "\<lparr>gatt_future = Pending, gatt_address = ''AA''\<rparr>" and mtu = 512
      and wtask = "\<lparr>gatt_future = Pending, gatt_address = ''AA''\<rparr>" and handle = 3
      and vtask = "\<lparr>gatt_future = Pending, gatt_address = ''AA''\<rparr>" and services = "[]"
      and utask = "\<lparr>gatt_future = Pending, gatt_address = ''AA''\<rparr>" and props = "[Uuids]"]
  by simp

section \<open>WaitConnection\<close>

lemma run_finished: "finished (progress_of c) \<Longrightarrow> run c events = c"
  by (cases events; cases "progress_of c") auto

text \<open>
  Claim C8, where it fails. On the service as constructed, \<^verbatim>\<open>WaitConnection\<close> for a
  device that is already connected registers its observer and waits: the address has
  not been waited for yet.
\<close>

theorem connected_device_still_waits:
  "start HostService_init (quiet_device\<lparr>is_connected := (\<lambda>a. True)\<rparr>) (WaitConnection (Some ''AA''))
   = ([Register adapter_client ConnectionObserver],
      Suspended (WaitConnectionS \<lparr>wait_connection = Pending, wait_connection_address = ''AA''\<rparr>),
      HostService_init)"
  by (simp add: start_def keep_def WaitConnection_start_def getattr_def HostService_init_def
        quiet_device_def)

text \<open>
  Claim C8, amended. \<^verbatim>\<open>WaitConnection\<close> registers its observer and waits when the
  device is not connected or its address is not in \<^verbatim>\<open>waited_connections\<close>; it returns
  the response at once, with no observer registered, only when the device is connected
  and its address is in that set.
\<close>

theorem WaitConnection_waits_iff:
  "self ''waited_connections'' = Some (AddressSet waited) \<Longrightarrow>
     (\<not> is_connected bluetooth address \<or> address \<notin> waited \<longrightarrow>
        start self bluetooth (WaitConnection (Some address)) =
          ([Register adapter_client ConnectionObserver],
           Suspended (WaitConnectionS \<lparr>wait_connection = Pending, wait_connection_address = address\<rparr>),
           self))
   \<and> (is_connected bluetooth address \<and> address \<in> waited \<longrightarrow>
        start self bluetooth (WaitConnection (Some address)) =
          ([], Returned (WaitConnectionResponse address), self))"
  by (simp add: start_def keep_def WaitConnection_start_def getattr_def Let_def)

theorem WaitConnection_waits_iff_witness:
  "(HostService_init(''waited_connections'' \<mapsto> AddressSet {''AA''})) ''waited_connections''
     = Some (AddressSet {''AA''})
   \<and> start (HostService_init(''waited_connections'' \<mapsto> AddressSet {''AA''}))
         (quiet_device\<lparr>is_connected := (\<lambda>a. True)\<rparr>) (WaitConnection (Some ''AA''))
       = ([], Returned (WaitConnectionResponse ''AA''),
          HostService_init(''waited_connections'' \<mapsto> AddressSet {''AA''}))
   \<and> start (HostService_init(''waited_connections'' \<mapsto> AddressSet {''AA''}))
         (quiet_device\<lparr>is_connected := (\<lambda>a. True)\<rparr>) (WaitConnection (Some ''BB''))
       = ([Register adapter_client ConnectionObserver],
          Suspended (WaitConnectionS \<lparr>wait_connection = Pending, wait_connection_address = ''BB''\<rparr>),
          HostService_init(''waited_connections'' \<mapsto> AddressSet {''AA''}))"
proof -
  let ?self = "HostService_init(''waited_connections'' \<mapsto> AddressSet {''AA''})"
  have h: "?self ''waited_connections'' = Some (AddressSet {''AA''})" by simp
  note a = WaitConnection_waits_iff[where self = ?self and waited = "{''AA''}"
      and bluetooth = "quiet_device\<lparr>is_connected := (\<lambda>a. True)\<rparr>" and address = "''AA''", OF h]
  note b = WaitConnection_waits_iff[where self = ?self and waited = "{''AA''}"
      and bluetooth = "quiet_device\<lparr>is_connected := (\<lambda>a. True)\<rparr>" and address = "''BB''", OF h]
  show ?thesis using h a b by simp
qed

text \<open>
  Claim C9, on the code. A \<^verbatim>\<open>WaitConnection\<close> call on the service as constructed
  waits; when the connected-event for its address arrives it unregisters the observer
  and then reads \<^verbatim>\<open>self.waited_connection\<close>, an attribute that was never assigned
  (the constructor, \<^verbatim>\<open>Reset\<close> and \<^verbatim>\<open>FactoryReset\<close> assign \<^verbatim>\<open>waited_connections\<close>):
  the call raises \<^verbatim>\<open>AttributeError\<close>, records nothing and returns no response.
\<close>

theorem WaitConnection_raises_AttributeError:
  "exec HostService_init bluetooth (WaitConnection (Some address))
     [(bluetooth', OnDeviceConnected (address, name))]
   = \<lparr>trace = [Register adapter_client ConnectionObserver, Unregister adapter_client ConnectionObserver],
      progress_of = Raised AttributeError, service_of = HostService_init\<rparr>"
  by (simp add: exec_def begin_config_def start_def keep_def WaitConnection_start_def getattr_def
        HostService_init_def step_def WaitConnection_step_def
        ConnectionObserver_on_device_connected_def set_result_def Let_def)

section \<open>DiscoverServicesSdp on a bonding device\<close>

text \<open>
  Claim C10. When the remote device is in bond state \<^verbatim>\<open>BONDING\<close>, whatever
  \<^verbatim>\<open>get_remote_uuids\<close> answers (nothing, an empty list, a non-empty list),
  \<^verbatim>\<open>DiscoverServicesSdp\<close> makes no call at all, so registers no observer, and ends by
  raising \<^verbatim>\<open>NameError\<close> from its \<^verbatim>\<open>finally\<close> block; it never returns a response.
\<close>

theorem DiscoverServicesSdp_bonding:
  "get_bond_state bluetooth address = BONDING \<Longrightarrow>
   exec self bluetooth (DiscoverServicesSdp address) events =
     \<lparr>trace = [], progress_of = Raised NameError, service_of = self\<rparr>"
  by (simp add: exec_def begin_config_def start_def keep_def DiscoverServicesSdp_start_def
        DiscoverServicesSdp_finally_def run_finished Let_def)

theorem DiscoverServicesSdp_bonding_witness:
  "get_bond_state (quiet_device\<lparr>get_bond_state := (\<lambda>a. BONDING)\<rparr>) ''AA'' = BONDING
   \<and> exec HostService_init (quiet_device\<lparr>get_bond_state := (\<lambda>a. BONDING)\<rparr>)
         (DiscoverServicesSdp ''AA'') []
       = \<lparr>trace = [], progress_of = Raised NameError, service_of = HostService_init\<rparr>
   \<and> exec HostService_init
         (quiet_device\<lparr>get_bond_state := (\<lambda>a. BONDING), get_remote_uuids := (\<lambda>a. Some [])\<rparr>)
         (DiscoverServicesSdp ''AA'') [(quiet_device, Tick)]
       = \<lparr>trace = [], progress_of = Raised NameError, service_of = HostService_init\<rparr>
   \<and> exec HostService_init
         (quiet_device\<lparr>get_bond_state := (\<lambda>a. BONDING), get_remote_uuids := (\<lambda>a. Some [''180F''])\<rparr>)
         (DiscoverServicesSdp ''AA'') []
       = \<lparr>trace = [], progress_of = Raised NameError, service_of = HostService_init\<rparr>"
proof -
  have h1: "get_bond_state (quiet_device\<lparr>get_bond_state := (\<lambda>a. BONDING)\<rparr>) ''AA'' = BONDING"
    by simp
  have h2: "get_bond_state
      (quiet_device\<lparr>get_bond_state := (\<lambda>a. BONDING), get_remote_uuids := (\<lambda>a. Some [])\<rparr>) ''AA'' = BONDING"
    by simp
  have h3: "get_bond_state
      (quiet_device\<lparr>get_bond_state := (\<lambda>a. BONDING), get_remote_uuids := (\<lambda>a. Some [''180F''])\<rparr>) ''AA''
      = BONDING"
    by simp
  show ?thesis
    using h1 DiscoverServicesSdp_bonding[OF h1, of HostService_init "[]"]
      DiscoverServicesSdp_bonding[OF h2, of HostService_init "[(quiet_device, Tick)]"]
      DiscoverServicesSdp_bonding[OF h3, of HostService_init "[]"]
    by simp
qed


section \<open>Runs of the GATT handlers\<close>

lemma run_append: "run c (xs @ ys) = run (run c xs) ys"
proof (induction xs arbitrary: c)
  case Nil
  then show ?case by simp
next
  case (Cons a xs)
  obtain d ev where a: "a = (d, ev)" by (cases a)
  show ?case
  proof (cases "progress_of c")
    case (Suspended s)
    then show ?thesis using Cons.IH a by (simp split: prod.splits)
  next
    case (Returned r)
    then show ?thesis using a by (simp add: run_finished)
  next
    case (Raised e)
    then show ?thesis using a by (simp add: run_finished)
  qed
qed

lemma run_one:
  "progress_of c = Suspended s \<Longrightarrow> step (service_of c) s d ev = (calls, p, self') \<Longrightarrow>
   run c ((d, ev) # rest) = run \<lparr>trace = trace c @ calls, progress_of = p, service_of = self'\<rparr> rest"
  by simp

lemma config_same:
  "progress_of c = p \<Longrightarrow> \<lparr>trace = trace c, progress_of = p, service_of = service_of c\<rparr> = c"
  by (cases c) simp

lemma run_skip:
  "progress_of c = Suspended s \<Longrightarrow> step (service_of c) s d ev = ([], Suspended s, service_of c) \<Longrightarrow>
   run c ((d, ev) # rest) = run c rest"
  by (simp add: config_same)

lemma ExchangeMTU_step_silent:
  "gatt_future task = Pending \<Longrightarrow> mtu_silent (gatt_address task) ev \<Longrightarrow>
   ExchangeMTU_step task ev = ([], Suspended (ExchangeMTUS task))"
  by (cases ev)
     (simp_all add: ExchangeMTU_step_def mtu_silent_def on_configure_mtu_def gatt_resolve_def)

lemma ExchangeMTU_run_silent:
  "progress_of c = Suspended (ExchangeMTUS task) \<Longrightarrow> gatt_future task = Pending \<Longrightarrow>
   list_all (\<lambda>de. mtu_silent (gatt_address task) (snd de)) events \<Longrightarrow> run c events = c"
proof (induction events)
  case Nil
  then show ?case by simp
next
  case (Cons a events)
  obtain d ev where a: "a = (d, ev)" by (cases a)
  have s: "step (service_of c) (ExchangeMTUS task) d ev = ([], Suspended (ExchangeMTUS task), service_of c)"
    using Cons.prems a by (simp add: step_def keep_def ExchangeMTU_step_silent)
  have "run c (a # events) = run c events"
    unfolding a by (rule run_skip[OF Cons.prems(1) s])
  then show ?case using Cons by simp
qed

lemma ExchangeMTU_begin:
  "begin_config self bluetooth (ExchangeMTU address mtu) =
     \<lparr>trace = [Register gatt_client MTUChangeObserver, ConfigureMtu address mtu],
      progress_of = Suspended (ExchangeMTUS \<lparr>gatt_future = Pending, gatt_address = address\<rparr>),
      service_of = self\<rparr>"
  by (simp add: begin_config_def start_def keep_def ExchangeMTU_start_def)

lemma ExchangeMTU_exec_silent:
  "list_all (\<lambda>de. mtu_silent address (snd de)) events \<Longrightarrow>
   exec self bluetooth (ExchangeMTU address mtu) events =
     \<lparr>trace = [Register gatt_client MTUChangeObserver, ConfigureMtu address mtu],
      progress_of = Suspended (ExchangeMTUS \<lparr>gatt_future = Pending, gatt_address = address\<rparr>),
      service_of = self\<rparr>"
  unfolding exec_def ExchangeMTU_begin
  by (rule ExchangeMTU_run_silent[where task = "\<lparr>gatt_future = Pending, gatt_address = address\<rparr>"]) simp_all

text \<open>
  Claim C4, where it fails. \<^verbatim>\<open>ExchangeMTU\<close> awaits its future with a bare
  \<^verbatim>\<open>await\<close>: after a whole day of seconds with no \<^verbatim>\<open>on_configure_mtu\<close> event the
  handler is still suspended, has raised no timeout error, and its observer is still
  registered.
\<close>

theorem ExchangeMTU_never_times_out:
  "exec HostService_init quiet_device (ExchangeMTU ''AA'' 512) (replicate 86400 (quiet_device, Tick)) =
     \<lparr>trace = [Register gatt_client MTUChangeObserver, ConfigureMtu ''AA'' 512],
      progress_of = Suspended (ExchangeMTUS \<lparr>gatt_future = Pending, gatt_address = ''AA''\<rparr>),
      service_of = HostService_init\<rparr>"
  by (rule ExchangeMTU_exec_silent) (simp add: list_all_iff mtu_silent_def)

text \<open>
  Claim C4, amended. Whatever happens that is neither a cancellation nor an
  \<^verbatim>\<open>on_configure_mtu\<close> for the requested address, for however long, \<^verbatim>\<open>ExchangeMTU\<close>
  stays suspended with its observer registered, and no error is raised: the wait has no
  bound. The call ends only with a cancellation (\<^verbatim>\<open>CancelledError\<close>), or with the
  matching event (the response on \<^verbatim>\<open>SUCCESS\<close>, \<^verbatim>\<open>RuntimeError\<close> on any other status);
  each time the observer is unregistered, once.
\<close>

theorem ExchangeMTU_wait_unbounded:
  "list_all (\<lambda>de. mtu_silent address (snd de)) events \<Longrightarrow>
     exec self bluetooth (ExchangeMTU address mtu) events =
       \<lparr>trace = [Register gatt_client MTUChangeObserver, ConfigureMtu address mtu],
        progress_of = Suspended (ExchangeMTUS \<lparr>gatt_future = Pending, gatt_address = address\<rparr>),
        service_of = self\<rparr>
   \<and> exec self bluetooth (ExchangeMTU address mtu) (events @ (d, Cancel) # rest) =
       \<lparr>trace = [Register gatt_client MTUChangeObserver, ConfigureMtu address mtu,
                 Unregister gatt_client MTUChangeObserver],
        progress_of = Raised CancelledError, service_of = self\<rparr>
   \<and> exec self bluetooth (ExchangeMTU address mtu) (events @ (d, OnConfigureMtu address m SUCCESS) # rest) =
       \<lparr>trace = [Register gatt_client MTUChangeObserver, ConfigureMtu address mtu,
                 Unregister gatt_client MTUChangeObserver],
        progress_of = Returned ExchangeMTUResponse, service_of = self\<rparr>
   \<and> (status \<noteq> SUCCESS \<longrightarrow>
       exec self bluetooth (ExchangeMTU address mtu) (events @ (d, OnConfigureMtu address m status) # rest) =
       \<lparr>trace = [Register gatt_client MTUChangeObserver, ConfigureMtu address mtu,
                 Unregister gatt_client MTUChangeObserver],
        progress_of = Raised RuntimeError, service_of = self\<rparr>)"
proof -
  assume q: "list_all (\<lambda>de. mtu_silent address (snd de)) events"
  note e = ExchangeMTU_exec_silent[OF q, of self bluetooth mtu]
  have r: "\<And>tail. exec self bluetooth (ExchangeMTU address mtu) (events @ tail) =
      run \<lparr>trace = [Register gatt_client MTUChangeObserver, ConfigureMtu address mtu],
        progress_of = Suspended (ExchangeMTUS \<lparr>gatt_future = Pending, gatt_address = address\<rparr>),
        service_of = self\<rparr> tail"
    using e by (simp add: exec_def run_append)
  show ?thesis
    unfolding r
    by (simp add: e step_def keep_def ExchangeMTU_step_def run_finished on_configure_mtu_def
          gatt_resolve_def call_soon_set_result_def set_result_def)
qed

theorem ExchangeMTU_wait_unbounded_witness:
  "list_all (\<lambda>de. mtu_silent ''AA'' (snd de))
     [(quiet_device, Tick), (quiet_device, OnConfigureMtu ''BB'' 100 SUCCESS), (quiet_device, Tick)]
   \<and> exec HostService_init quiet_device (ExchangeMTU ''AA'' 512)
       ([(quiet_device, Tick), (quiet_device, OnConfigureMtu ''BB'' 100 SUCCESS), (quiet_device, Tick)]
        @ (quiet_device, Cancel) # []) =
       \<lparr>trace = [Register gatt_client MTUChangeObserver, ConfigureMtu ''AA'' 512,
                 Unregister gatt_client MTUChangeObserver],
        progress_of = Raised CancelledError, service_of = HostService_init\<rparr>
   \<and> exec HostService_init quiet_device (ExchangeMTU ''AA'' 512)
       ([(quiet_device, Tick), (quiet_device, OnConfigureMtu ''BB'' 100 SUCCESS), (quiet_device, Tick)]
        @ (quiet_device, OnConfigureMtu ''AA'' 512 (GattStatusOther 133)) # []) =
       \<lparr>trace = [Register gatt_client MTUChangeObserver, ConfigureMtu ''AA'' 512,
                 Unregister gatt_client MTUChangeObserver],
        progress_of = Raised RuntimeError, service_of = HostService_init\<rparr>"
proof -
  have h: "list_all (\<lambda>de. mtu_silent ''AA'' (snd de))
     [(quiet_device, Tick), (quiet_device, OnConfigureMtu ''BB'' 100 SUCCESS), (quiet_device, Tick)]"
    by (simp add: mtu_silent_def)
  from ExchangeMTU_wait_unbounded[OF h, of HostService_init quiet_device 512 quiet_device "[]" 512
      "GattStatusOther 133"]
  show ?thesis using h by simp
qed



lemma settle_simps [simp]:
  "settle (Done v) w = Done v"
  "settle Pending None = Pending"
  "settle Pending (Some v) = Done v"
  "settle f None = f"
  by (simp_all add: settle_def split: future.splits)













section \<open>Registrations and unregistrations\<close>

lemma registered_simps [simp]:
  "registered [] = []"
  "registered (Register cl ob # cs) = (cl, ob) # registered cs"
  "registered (xs @ ys) = registered xs @ registered ys"
  by (simp_all add: registered_def)

lemma unregistered_simps [simp]:
  "unregistered [] = []"
  "unregistered (Unregister cl ob # cs) = (cl, ob) # unregistered cs"
  "unregistered (xs @ ys) = unregistered xs @ unregistered ys"
  by (simp_all add: unregistered_def)

lemma registered_skip [simp]: "reg_of c = [] \<Longrightarrow> registered (c # cs) = registered cs"
  by (simp add: registered_def)

lemma unregistered_skip [simp]: "unreg_of c = [] \<Longrightarrow> unregistered (c # cs) = unregistered cs"
  by (simp add: unregistered_def)

lemma registered_map_Yield [simp]: "registered (map (\<lambda>r. Yield (f r)) xs) = []"
  by (induction xs) simp_all

lemma unregistered_map_Yield [simp]: "unregistered (map (\<lambda>r. Yield (f r)) xs) = []"
  by (induction xs) simp_all

lemma registered_map_Unregister [simp]: "registered (map (Unregister cl) obs) = []"
  by (induction obs) simp_all

lemma unregistered_map_Unregister [simp]: "unregistered (map (Unregister cl) obs) = map (Pair cl) obs"
  by (induction obs) simp_all

lemma registered_map_Stop [simp]: "registered (map StopAdvertisingSet ids) = []"
  by (induction ids) simp_all

lemma unregistered_map_Stop [simp]: "unregistered (map StopAdvertisingSet ids) = []"
  by (induction ids) simp_all

lemma pairing_dispatch_calls:
  "registered (fst (PairingObserver_dispatch client task ev)) = []
   \<and> unregistered (fst (PairingObserver_dispatch client task ev)) = []"
  by (cases ev)
     (simp_all add: pairing_callback_defs pairing_set_result_def Let_def split: prod.splits)

lemma Connect_step_not_Cancel:
  "ev \<noteq> Cancel \<Longrightarrow>
   Connect_step bluetooth task ev =
     (case PairingObserver_dispatch bluetooth task ev of (calls, task', _) \<Rightarrow>
        (case connect_device task' of
           Pending \<Rightarrow> (calls, Suspended (ConnectS task'))
         | Done (success, reason) \<Rightarrow>
             if \<not> success then
               (calls @ [Unregister adapter_client PairingObserver], Raised RuntimeError)
             else
               (calls @ [Unregister adapter_client PairingObserver],
                Returned (ConnectResponse (pairing_address task')))))"
  by (cases ev) (simp_all add: Connect_step_def)

lemma Connect_step_balanced: "balanced_step (ConnectS task) (Connect_step bluetooth task ev)"
proof (cases "ev = Cancel")
  case True
  then show ?thesis by (simp add: balanced_step_def Connect_step_def)
next
  case False
  obtain calls task' err where d: "PairingObserver_dispatch bluetooth task ev = (calls, task', err)"
    by (cases "PairingObserver_dispatch bluetooth task ev")
  have c: "registered calls = []" "unregistered calls = []"
    using pairing_dispatch_calls[of bluetooth task ev] d by simp_all
  show ?thesis
    unfolding Connect_step_not_Cancel[OF False] d
    by (simp add: balanced_step_def c split: future.splits prod.splits)
qed


lemma WaitConnection_step_balanced:
  "WaitConnection_step self task ev = (calls, p, self') \<Longrightarrow> balanced_step (WaitConnectionS task) (calls, p)"
  by (cases ev)
     (auto simp add: balanced_step_def WaitConnection_step_def ConnectionObserver_on_device_connected_def
        Let_def set_result_def
        split: future.splits prod.splits sum.splits attribute.splits if_splits)

lemma WaitDisconnection_step_balanced:
  "balanced_step (WaitDisconnectionS task) (WaitDisconnection_step task ev)"
  by (cases ev)
     (auto simp add: balanced_step_def WaitDisconnection_step_def on_device_disconnected_def
        Let_def set_result_def split: future.splits prod.splits if_splits)

lemma unregistered_Advertise_finally:
  "unregistered (Advertise_finally s) =
     concat (map (\<lambda>ob. [(adapter_client, ob), (advertising_client, ob)]) (adv_observers s))"
proof -
  have "\<And>obs. unregistered (concat (map (\<lambda>ob. [Unregister adapter_client ob, Unregister advertising_client ob]) obs))
      = concat (map (\<lambda>ob. [(adapter_client, ob), (advertising_client, ob)]) obs)"
    subgoal for obs by (induction obs) simp_all
    done
  then show ?thesis by (simp add: Advertise_finally_def)
qed

lemma registered_Advertise_finally: "registered (Advertise_finally s) = []"
proof -
  have "\<And>obs. registered (concat (map (\<lambda>ob. [Unregister adapter_client ob, Unregister advertising_client ob]) obs)) = []"
    subgoal for obs by (induction obs) simp_all
    done
  then show ?thesis by (simp add: Advertise_finally_def)
qed

lemma length_concat_pairs:
  "length (concat (map (\<lambda>ob. [(adapter_client, ob), (advertising_client, ob)]) obs)) = 2 * length obs"
  by (induction obs) simp_all

lemma held_in_pairs:
  "set (map (\<lambda>ob. (advertise_client_of ob, ob)) obs)
     \<subseteq> set (concat (map (\<lambda>ob. [(adapter_client, ob), (advertising_client, ob)]) obs))"
proof (induction obs)
  case Nil
  then show ?case by simp
next
  case (Cons ob obs)
  have "advertise_client_of ob = adapter_client \<or> advertise_client_of ob = advertising_client"
    by (cases ob) simp_all
  then show ?case using Cons by auto
qed

lemma Advertise_finally_balanced: "balanced_step (AdvertiseS s) (Advertise_finally s, Raised e)"
  using held_in_pairs[of "adv_observers s"]
  by (simp add: balanced_step_def unregistered_Advertise_finally registered_Advertise_finally
        length_concat_pairs)

lemma Advertise_get_balanced:
  "adv_observers s' = adv_observers s \<Longrightarrow> balanced_step (AdvertiseS s) (Advertise_get s')"
  by (simp add: balanced_step_def Advertise_get_def split: list.splits)

lemma Advertise_after_start_balanced:
  "adv_observers s' = adv_observers s \<Longrightarrow> balanced_step (AdvertiseS s) (Advertise_after_start s')"
  using Advertise_get_balanced[of s' s]
  by (simp add: Advertise_after_start_def) (simp add: balanced_step_def)

lemma Advertise_loop_balanced: "balanced_step (AdvertiseS s) (Advertise_loop bluetooth s)"
  using Advertise_after_start_balanced[of s s]
  by (simp add: Advertise_loop_def Let_def) (simp add: balanced_step_def)

lemma Advertise_step_balanced: "balanced_step (AdvertiseS s) (Advertise_step bluetooth s ev)"
proof (cases ev)
  case Tick
  then show ?thesis
    using Advertise_loop_balanced[of s bluetooth] Advertise_finally_balanced[of s TimeoutError]
    by (cases "adv_phase s") (simp_all add: Advertise_step_def, simp_all add: balanced_step_def)
next
  case Cancel
  then show ?thesis using Advertise_finally_balanced[of s CancelledError]
    by (simp add: Advertise_step_def)
next
  case (OnDeviceConnected remote_device)
  let ?s' = "s\<lparr>adv_connections := Advertise_on_device_connected (adv_connections s) remote_device\<rparr>"
  have g: "balanced_step (AdvertiseS s) (Advertise_get ?s')"
    by (rule Advertise_get_balanced) simp
  show ?thesis using OnDeviceConnected g
    by (cases "adv_phase s") (simp_all add: Advertise_step_def Let_def, simp_all add: balanced_step_def)
next
  case (OnAdvertisingSetStarted reg_id advertiser_id tx_power status)
  have a: "\<And>x. balanced_step (AdvertiseS s) (Advertise_after_start (s\<lparr>started_ids := started_ids s @ [x]\<rparr>))"
    by (rule Advertise_after_start_balanced) simp
  show ?thesis using OnAdvertisingSetStarted a
    by (cases "adv_phase s")
       (simp_all add: Advertise_step_def on_advertising_set_started_def set_result_def Let_def,
        simp_all add: balanced_step_def)
qed (simp_all add: Advertise_step_def balanced_step_def)


lemma Scan_step_registering_balanced:
  "balanced_step (ScanRegisteringS task remaining) (Scan_step_registering task remaining ev)"
  by (cases ev)
     (auto simp add: balanced_step_def Scan_step_registering_def Scan_finally_def
        on_scanner_registered_def on_scan_result_def set_result_def Let_def
        split: future.splits prod.splits if_splits)

lemma Scan_step_scanning_balanced:
  "balanced_step (ScanningS task scanner_id) (Scan_step_scanning task scanner_id ev)"
  by (cases ev)
     (auto simp add: balanced_step_def Scan_step_scanning_def Scan_finally_def on_scan_result_def
        split: option.splits)

lemma Inquiry_step_starting_balanced:
  "balanced_step (InquiryStartingS task remaining) (Inquiry_step_starting task remaining ev)"
  by (cases ev)
     (auto simp add: balanced_step_def Inquiry_step_starting_def Inquiry_finally_def Inquiry_loop_def
        on_discovering_changed_def set_result_def Let_def split: future.splits prod.splits if_splits)

lemma Inquiry_step_running_balanced:
  "balanced_step (InquiryRunningS observers inquiry_results) (Inquiry_step_running observers inquiry_results ev)"
  by (cases ev)
     (auto simp add: balanced_step_def Inquiry_step_running_def Inquiry_finally_def)

lemma ExchangeMTU_step_balanced: "balanced_step (ExchangeMTUS task) (ExchangeMTU_step task ev)"
  by (cases ev)
     (auto simp add: balanced_step_def ExchangeMTU_step_def on_configure_mtu_def gatt_resolve_def
        split: future.splits prod.splits if_splits)

lemma DiscoverServices_step_balanced:
  "balanced_step (DiscoverServicesS task) (DiscoverServices_step task ev)"
  by (cases ev)
     (auto simp add: balanced_step_def DiscoverServices_step_def on_search_complete_def gatt_resolve_def
        split: future.splits prod.splits if_splits)

lemma ClearCache_step_balanced: "balanced_step (ClearCacheS task) (ClearCache_step task ev)"
  by (cases ev)
     (auto simp add: balanced_step_def ClearCache_step_def on_connection_updated_def gatt_resolve_def
        split: future.splits prod.splits if_splits)

lemma DiscoverServicesSdp_step_balanced:
  "balanced_step (DiscoverServicesSdpS task) (DiscoverServicesSdp_step bluetooth task ev)"
  by (cases ev)
     (auto simp add: balanced_step_def DiscoverServicesSdp_step_def DiscoverServicesSdp_finally_def
        on_device_properties_changed_def split: future.splits prod.splits if_splits)

lemma WriteAtt_await_write_balanced:
  "write_observers s' = write_observers s \<Longrightarrow> balanced_step (WriteAttS s) (WriteAtt_await_write s')"
  by (simp add: balanced_step_def WriteAtt_await_write_def WriteAtt_finally_def
        split: future.splits prod.splits)

lemma WriteAtt_write_event_balanced:
  "balanced_step (WriteAttS s) (WriteAtt_write_event s r)"
proof -
  obtain calls task' err where r: "r = (calls, task', err)" by (cases r)
  have a: "balanced_step (WriteAttS s) (WriteAtt_await_write (s\<lparr>write_attribute := gatt_future task'\<rparr>))"
    by (rule WriteAtt_await_write_balanced) simp
  show ?thesis using a
    by (cases "write_phase s") (simp_all add: WriteAtt_write_event_def r Let_def, simp_all add: balanced_step_def)
qed

lemma balanced_step_cons:
  "reg_of c = [] \<Longrightarrow> unreg_of c = [] \<Longrightarrow> balanced_step s (calls, p) \<Longrightarrow> balanced_step s (c # calls, p)"
  by (simp add: balanced_step_def split: progress.splits)

lemma WriteAttFromHandle_step_balanced:
  "balanced_step (WriteAttS s) (WriteAttFromHandle_step s ev)"
proof (cases ev)
  case Cancel
  then show ?thesis
    by (simp add: WriteAttFromHandle_step_def balanced_step_def WriteAtt_finally_def)
next
  case (OnCharacteristicWrite addr status handle)
  then show ?thesis by (simp add: WriteAttFromHandle_step_def WriteAtt_write_event_balanced)
next
  case (OnDescriptorWrite addr status handle)
  then show ?thesis by (simp add: WriteAttFromHandle_step_def WriteAtt_write_event_balanced)
next
  case (OnCharacteristicRead addr status handle val)
  obtain calls p where w: "WriteAtt_await_write s = (calls, p)" by (cases "WriteAtt_await_write s")
  have a: "balanced_step (WriteAttS s) (calls, p)"
    using WriteAtt_await_write_balanced[of s s] w by simp
  have b: "balanced_step (WriteAttS s)
      (WriteCharacteristic (write_address s) (write_handle s) WRITE_TYPE_DEFAULT AUTHENTICATION_NONE
         (write_value s) # calls, p)"
    by (rule balanced_step_cons[OF _ _ a]) simp_all
  show ?thesis using OnCharacteristicRead b
    by (cases "write_phase s")
       (simp_all add: WriteAttFromHandle_step_def on_characteristic_read_def gatt_resolve_def
          call_soon_set_result_def set_result_def w,
        simp_all add: balanced_step_def)
next
  case (OnDescriptorRead addr status handle val)
  obtain calls p where w: "WriteAtt_await_write s = (calls, p)" by (cases "WriteAtt_await_write s")
  have a: "balanced_step (WriteAttS s) (calls, p)"
    using WriteAtt_await_write_balanced[of s s] w by simp
  have b: "balanced_step (WriteAttS s)
      (WriteDescriptor (write_address s) (write_handle s) AUTHENTICATION_NONE (write_value s) # calls, p)"
    by (rule balanced_step_cons[OF _ _ a]) simp_all
  show ?thesis using OnDescriptorRead b
    by (cases "write_phase s")
       (simp_all add: WriteAttFromHandle_step_def on_descriptor_read_def gatt_resolve_def
          call_soon_set_result_def set_result_def w,
        simp_all add: balanced_step_def WriteAtt_finally_def)
qed (simp_all add: WriteAttFromHandle_step_def balanced_step_def)

lemma step_balanced:
  "step self s bluetooth ev = (calls, p, self') \<Longrightarrow> balanced_step s (calls, p)"
proof (cases s)
  case (ConnectS task)
  assume "step self s bluetooth ev = (calls, p, self')"
  then show ?thesis using ConnectS Connect_step_balanced[of task bluetooth ev]
    by (auto simp add: step_def keep_def)
next
  case (WaitConnectionS task)
  assume "step self s bluetooth ev = (calls, p, self')"
  then show ?thesis using WaitConnectionS WaitConnection_step_balanced[of self task ev calls p self']
    by (simp add: step_def)
next
  case (WaitDisconnectionS task)
  assume "step self s bluetooth ev = (calls, p, self')"
  then show ?thesis using WaitDisconnectionS WaitDisconnection_step_balanced[of task ev]
    by (auto simp add: step_def keep_def)
next
  case (AdvertiseS st)
  assume "step self s bluetooth ev = (calls, p, self')"
  then show ?thesis using AdvertiseS Advertise_step_balanced[of st bluetooth ev]
    by (auto simp add: step_def keep_def)
next
  case (ScanRegisteringS task remaining)
  assume "step self s bluetooth ev = (calls, p, self')"
  then show ?thesis using ScanRegisteringS Scan_step_registering_balanced[of task remaining ev]
    by (auto simp add: step_def keep_def)
next
  case (ScanningS task scanner_id)
  assume "step self s bluetooth ev = (calls, p, self')"
  then show ?thesis using ScanningS Scan_step_scanning_balanced[of task scanner_id ev]
    by (auto simp add: step_def keep_def)
next
  case (InquiryStartingS task remaining)
  assume "step self s bluetooth ev = (calls, p, self')"
  then show ?thesis using InquiryStartingS Inquiry_step_starting_balanced[of task remaining ev]
    by (auto simp add: step_def keep_def)
next
  case (InquiryRunningS observers inquiry_results)
  assume "step self s bluetooth ev = (calls, p, self')"
  then show ?thesis using InquiryRunningS Inquiry_step_running_balanced[of observers inquiry_results ev]
    by (auto simp add: step_def keep_def)
next
  case (ExchangeMTUS task)
  assume "step self s bluetooth ev = (calls, p, self')"
  then show ?thesis using ExchangeMTUS ExchangeMTU_step_balanced[of task ev]
    by (auto simp add: step_def keep_def)
next
  case (WriteAttS st)
  assume "step self s bluetooth ev = (calls, p, self')"
  then show ?thesis using WriteAttS WriteAttFromHandle_step_balanced[of st ev]
    by (auto simp add: step_def keep_def)
next
  case (DiscoverServicesS task)
  assume "step self s bluetooth ev = (calls, p, self')"
  then show ?thesis using DiscoverServicesS DiscoverServices_step_balanced[of task ev]
    by (auto simp add: step_def keep_def)
next
  case (DiscoverServicesSdpS task)
  assume "step self s bluetooth ev = (calls, p, self')"
  then show ?thesis using DiscoverServicesSdpS DiscoverServicesSdp_step_balanced[of task bluetooth ev]
    by (auto simp add: step_def keep_def)
next
  case (ClearCacheS task)
  assume "step self s bluetooth ev = (calls, p, self')"
  then show ?thesis using ClearCacheS ClearCache_step_balanced[of task ev]
    by (auto simp add: step_def keep_def)
qed


lemma balanced_config_step:
  assumes c: "balanced_config k c" and s: "progress_of c = Suspended s"
    and st: "step (service_of c) s bluetooth ev = (calls, p, self')"
  shows "balanced_config k \<lparr>trace = trace c @ calls, progress_of = p, service_of = self'\<rparr>"
proof -
  have b: "balanced_step s (calls, p)" by (rule step_balanced[OF st])
  show ?thesis
    using c s b by (cases p) (auto simp add: balanced_config_def balanced_step_def)
qed

lemma balanced_config_run: "balanced_config k c \<Longrightarrow> balanced_config k (run c events)"
proof (induction events arbitrary: c)
  case Nil
  then show ?case by simp
next
  case (Cons a events)
  obtain d ev where a: "a = (d, ev)" by (cases a)
  show ?case
  proof (cases "progress_of c")
    case (Suspended s)
    obtain calls p self' where st: "step (service_of c) s d ev = (calls, p, self')"
      by (cases "step (service_of c) s d ev")
    have "balanced_config k \<lparr>trace = trace c @ calls, progress_of = p, service_of = self'\<rparr>"
      by (rule balanced_config_step[OF Cons.prems Suspended st])
    then show ?thesis using Cons.IH a Suspended st by simp
  next
    case (Returned r)
    then show ?thesis using Cons.prems a by simp
  next
    case (Raised e)
    then show ?thesis using Cons.prems a by simp
  qed
qed

lemma balanced_config_begin:
  "balanced_config (request_factor request) (begin_config self bluetooth request)"
proof (cases request)
  case (Advertise connectable)
  then show ?thesis
    by (simp add: balanced_config_def begin_config_def start_def keep_def Advertise_start_def
          Advertise_loop_def Advertise_after_start_def Advertise_get_def Let_def)
next
  case (WaitConnection a)
  then show ?thesis
    by (auto simp add: balanced_config_def begin_config_def start_def keep_def WaitConnection_start_def
          getattr_def Let_def split: option.splits attribute.splits)
next
  case (DiscoverServicesSdp a)
  then show ?thesis
    by (simp add: balanced_config_def begin_config_def start_def keep_def DiscoverServicesSdp_start_def
          DiscoverServicesSdp_finally_def Let_def)
qed (simp_all add: balanced_config_def begin_config_def start_def keep_def FactoryReset_start_def
       Reset_start_def ReadLocalAddress_start_def Connect_start_def Disconnect_start_def
       WaitDisconnection_start_def Scan_start_def Inquiry_start_def Inquiry_loop_def
       SetDiscoverabilityMode_start_def ExchangeMTU_start_def WriteAttFromHandle_start_def
       DiscoverServiceByUuid_start_def DiscoverServices_start_def ClearCache_start_def
       split: option.splits)

text \<open>
  Claim C2, amended. When a handler has ended, by returning or by raising (a
  cancellation and a timeout raise), every observer it registered has been unregistered
  from the client it was registered on. For every handler but \<^verbatim>\<open>Advertise\<close> the number
  of unregister calls equals the number of register calls. \<^verbatim>\<open>Advertise\<close> unregisters
  each of its observers from both the adapter client and the advertising client, so it
  makes exactly twice as many unregister calls as register calls.
\<close>

theorem unregistration_balance:
  "finished (progress_of (exec self bluetooth request events)) \<Longrightarrow>
     set (registered (trace (exec self bluetooth request events)))
       \<subseteq> set (unregistered (trace (exec self bluetooth request events)))
   \<and> unregisters (trace (exec self bluetooth request events)) =
       (case request of
          Advertise connectable \<Rightarrow> 2 * registers (trace (exec self bluetooth request events))
        | _ \<Rightarrow> registers (trace (exec self bluetooth request events)))"
proof -
  assume f: "finished (progress_of (exec self bluetooth request events))"
  have b: "balanced_config (request_factor request) (exec self bluetooth request events)"
    unfolding exec_def by (rule balanced_config_run[OF balanced_config_begin])
  have k: "request_factor request = (case request of Advertise connectable \<Rightarrow> 2 | _ \<Rightarrow> 1)"
    by (cases request) simp_all
  show ?thesis
    using f b
    by (cases "progress_of (exec self bluetooth request events)"; cases request)
       (simp_all add: balanced_config_def registers_def unregisters_def)
qed


lemmas Advertise_run_defs =
  exec_def begin_config_def start_def step_def keep_def Advertise_start_def Advertise_loop_def
  Advertise_after_start_def Advertise_get_def Advertise_step_def Advertise_finally_def
  on_advertising_set_started_def Advertise_on_device_connected_def set_result_def quiet_device_def
  Let_def

text \<open>
  Claim C2, where it fails. A non-connectable \<^verbatim>\<open>Advertise\<close> call starts one
  advertising set, registers one observer on the advertising client, has the start
  confirmed and is then cancelled: its \<^verbatim>\<open>finally\<close> block calls
  \<^verbatim>\<open>unregister_callback_observer\<close> twice for the one observer, once on the adapter
  client and once on the advertising client.
\<close>

theorem Advertise_unregisters_twice:
  "exec HostService_init quiet_device (Advertise False)
     [(quiet_device, OnAdvertisingSetStarted 0 5 0 (Some SUCCESS)), (quiet_device, Cancel)] =
     \<lparr>trace = [StartAdvertisingSet, Register advertising_client (AdvertisingObserver 0),
               Unregister adapter_client (AdvertisingObserver 0),
               Unregister advertising_client (AdvertisingObserver 0),
               StopAdvertisingSet (Some 5)],
      progress_of = Raised CancelledError, service_of = HostService_init\<rparr>
   \<and> registers (trace (exec HostService_init quiet_device (Advertise False)
        [(quiet_device, OnAdvertisingSetStarted 0 5 0 (Some SUCCESS)), (quiet_device, Cancel)])) = 1
   \<and> unregisters (trace (exec HostService_init quiet_device (Advertise False)
        [(quiet_device, OnAdvertisingSetStarted 0 5 0 (Some SUCCESS)), (quiet_device, Cancel)])) = 2"
  by (simp add: Advertise_run_defs registers_def unregisters_def)

lemmas Inquiry_run_defs =
  exec_def begin_config_def start_def step_def keep_def Inquiry_start_def Inquiry_loop_def
  Inquiry_step_starting_def Inquiry_step_running_def Inquiry_finally_def on_discovering_changed_def
  on_device_found_def set_result_def quiet_device_def Let_def

theorem unregistration_balance_witness:
  "finished (progress_of (exec HostService_init quiet_device Inquiry
      [(quiet_device, OnDiscoveringChanged True), (quiet_device, OnDeviceFound (''AA'', ''peer'')),
       (quiet_device, Cancel)]))
   \<and> registers (trace (exec HostService_init quiet_device Inquiry
      [(quiet_device, OnDiscoveringChanged True), (quiet_device, OnDeviceFound (''AA'', ''peer'')),
       (quiet_device, Cancel)])) = 2
   \<and> unregisters (trace (exec HostService_init quiet_device Inquiry
      [(quiet_device, OnDiscoveringChanged True), (quiet_device, OnDeviceFound (''AA'', ''peer'')),
       (quiet_device, Cancel)])) = 2
   \<and> finished (progress_of (exec HostService_init quiet_device (Advertise True)
      [(quiet_device, OnAdvertisingSetStarted 0 5 0 (Some SUCCESS)), (quiet_device, Cancel)]))
   \<and> registers (trace (exec HostService_init quiet_device (Advertise True)
      [(quiet_device, OnAdvertisingSetStarted 0 5 0 (Some SUCCESS)), (quiet_device, Cancel)])) = 2
   \<and> unregisters (trace (exec HostService_init quiet_device (Advertise True)
      [(quiet_device, OnAdvertisingSetStarted 0 5 0 (Some SUCCESS)), (quiet_device, Cancel)])) = 4"
proof -
  let ?i = "exec HostService_init quiet_device Inquiry
      [(quiet_device, OnDiscoveringChanged True), (quiet_device, OnDeviceFound (''AA'', ''peer'')),
       (quiet_device, Cancel)]"
  let ?a = "exec HostService_init quiet_device (Advertise True)
      [(quiet_device, OnAdvertisingSetStarted 0 5 0 (Some SUCCESS)), (quiet_device, Cancel)]"
  have fi: "finished (progress_of ?i)" by (simp add: Inquiry_run_defs)
  have ri: "registers (trace ?i) = 2" by (simp add: Inquiry_run_defs registers_def)
  have fa: "finished (progress_of ?a)" by (simp add: Advertise_run_defs)
  have ra: "registers (trace ?a) = 2" by (simp add: Advertise_run_defs registers_def)
  from unregistration_balance[OF fi] unregistration_balance[OF fa]
  show ?thesis using fi ri fa ra by simp
qed


section \<open>Teardown of the streaming handlers\<close>

lemma starts_simps [simp]:
  "starts [] = []"
  "starts (c # cs) = (if is_start c then c # starts cs else starts cs)"
  "starts (xs @ ys) = starts xs @ starts ys"
  by (simp_all add: starts_def)

lemma stops_simps [simp]:
  "stops [] = []"
  "stops (c # cs) = (if is_stop c then c # stops cs else stops cs)"
  "stops (xs @ ys) = stops xs @ stops ys"
  by (simp_all add: stops_def)

lemma starts_map_Yield [simp]: "starts (map (\<lambda>r. Yield (f r)) xs) = []"
  by (induction xs) simp_all

lemma stops_map_Yield [simp]: "stops (map (\<lambda>r. Yield (f r)) xs) = []"
  by (induction xs) simp_all

lemma starts_map_Unregister [simp]: "starts (map (Unregister cl) obs) = []"
  by (induction obs) simp_all

lemma stops_map_Unregister [simp]: "stops (map (Unregister cl) obs) = []"
  by (induction obs) simp_all

lemma starts_map_Stop [simp]: "starts (map StopAdvertisingSet ids) = []"
  by (induction ids) simp_all

lemma stops_map_Stop [simp]: "stops (map StopAdvertisingSet ids) = map StopAdvertisingSet ids"
  by (induction ids) simp_all

lemma starts_unregister_pairs [simp]:
  "starts (concat (map (\<lambda>ob. [Unregister adapter_client ob, Unregister advertising_client ob]) obs)) = []"
  by (induction obs) simp_all

lemma stops_unregister_pairs [simp]:
  "stops (concat (map (\<lambda>ob. [Unregister adapter_client ob, Unregister advertising_client ob]) obs)) = []"
  by (induction obs) simp_all

lemma Advertise_finally_teardown: "teardown_step (AdvertiseS s) (Advertise_finally s, Raised e)"
  by (simp add: teardown_step_def Advertise_finally_def)

lemma Advertise_get_teardown:
  "started_ids s' = started_ids s \<Longrightarrow> awaiting_start (adv_phase s) = 0 \<Longrightarrow>
   teardown_step (AdvertiseS s) (Advertise_get s')"
  by (simp add: teardown_step_def Advertise_get_def split: list.splits)

lemma Advertise_after_start_teardown:
  "length (started_ids s') = length (started_ids s) + awaiting_start (adv_phase s) \<Longrightarrow>
   teardown_step (AdvertiseS s) (Advertise_after_start s')"
  by (simp add: teardown_step_def Advertise_after_start_def Advertise_get_def split: list.splits)

lemma Advertise_loop_teardown:
  "awaiting_start (adv_phase s) = 0 \<Longrightarrow> teardown_step (AdvertiseS s) (Advertise_loop bluetooth s)"
  using Advertise_after_start_teardown[of s s]
  by (simp add: Advertise_loop_def Let_def)
     (simp add: teardown_step_def replicate_append_same)

lemma Advertise_step_teardown: "teardown_step (AdvertiseS s) (Advertise_step bluetooth s ev)"
proof (cases ev)
  case Tick
  then show ?thesis
    using Advertise_loop_teardown[of s bluetooth] Advertise_finally_teardown[of s TimeoutError]
    by (cases "adv_phase s") (simp_all add: Advertise_step_def, simp_all add: teardown_step_def)
next
  case Cancel
  then show ?thesis using Advertise_finally_teardown[of s CancelledError]
    by (simp add: Advertise_step_def)
next
  case (OnDeviceConnected remote_device)
  let ?s' = "s\<lparr>adv_connections := Advertise_on_device_connected (adv_connections s) remote_device\<rparr>"
  have g: "adv_phase s = AwaitConnection \<Longrightarrow> teardown_step (AdvertiseS s) (Advertise_get ?s')"
    by (rule Advertise_get_teardown) simp_all
  show ?thesis using OnDeviceConnected g
    by (cases "adv_phase s") (simp_all add: Advertise_step_def Let_def, simp_all add: teardown_step_def)
next
  case (OnAdvertisingSetStarted reg_id advertiser_id tx_power status)
  have a: "\<And>x r n. adv_phase s = AwaitStartAdvertising r n \<Longrightarrow>
      teardown_step (AdvertiseS s) (Advertise_after_start (s\<lparr>started_ids := started_ids s @ [x]\<rparr>))"
    by (rule Advertise_after_start_teardown) simp
  show ?thesis using OnAdvertisingSetStarted a
    by (cases "adv_phase s")
       (simp_all add: Advertise_step_def on_advertising_set_started_def set_result_def Let_def,
        simp_all add: teardown_step_def)
qed (simp_all add: Advertise_step_def teardown_step_def)

lemma Scan_step_registering_teardown:
  "teardown_step (ScanRegisteringS task remaining) (Scan_step_registering task remaining ev)"
  by (cases ev)
     (auto simp add: teardown_step_def Scan_step_registering_def Scan_finally_def
        on_scanner_registered_def on_scan_result_def set_result_def Let_def
        split: future.splits prod.splits if_splits)

lemma Scan_step_scanning_teardown:
  "teardown_step (ScanningS task scanner_id) (Scan_step_scanning task scanner_id ev)"
  by (cases ev)
     (auto simp add: teardown_step_def Scan_step_scanning_def Scan_finally_def on_scan_result_def
        split: option.splits)

lemma Inquiry_step_starting_teardown:
  "teardown_step (InquiryStartingS task remaining) (Inquiry_step_starting task remaining ev)"
  by (cases ev)
     (auto simp add: teardown_step_def Inquiry_step_starting_def Inquiry_finally_def Inquiry_loop_def
        on_discovering_changed_def set_result_def Let_def split: future.splits prod.splits if_splits)

lemma Inquiry_step_running_teardown:
  "teardown_step (InquiryRunningS observers inquiry_results) (Inquiry_step_running observers inquiry_results ev)"
  by (cases ev)
     (auto simp add: teardown_step_def Inquiry_step_running_def Inquiry_finally_def)


lemma step_teardown:
  "kind_of s \<noteq> UnaryK \<Longrightarrow> step self s bluetooth ev = (calls, p, self') \<Longrightarrow> teardown_step s (calls, p)"
proof (cases s)
  case (AdvertiseS st)
  assume "step self s bluetooth ev = (calls, p, self')"
  then show ?thesis using AdvertiseS Advertise_step_teardown[of st bluetooth ev]
    by (auto simp add: step_def keep_def)
next
  case (ScanRegisteringS task remaining)
  assume "step self s bluetooth ev = (calls, p, self')"
  then show ?thesis using ScanRegisteringS Scan_step_registering_teardown[of task remaining ev]
    by (auto simp add: step_def keep_def)
next
  case (ScanningS task scanner_id)
  assume "step self s bluetooth ev = (calls, p, self')"
  then show ?thesis using ScanningS Scan_step_scanning_teardown[of task scanner_id ev]
    by (auto simp add: step_def keep_def)
next
  case (InquiryStartingS task remaining)
  assume "step self s bluetooth ev = (calls, p, self')"
  then show ?thesis using InquiryStartingS Inquiry_step_starting_teardown[of task remaining ev]
    by (auto simp add: step_def keep_def)
next
  case (InquiryRunningS observers inquiry_results)
  assume "step self s bluetooth ev = (calls, p, self')"
  then show ?thesis using InquiryRunningS Inquiry_step_running_teardown[of observers inquiry_results ev]
    by (auto simp add: step_def keep_def)
qed simp_all

lemma teardown_config_step:
  assumes k: "k \<noteq> UnaryK" and c: "teardown_config k c" and s: "progress_of c = Suspended s"
    and st: "step (service_of c) s bluetooth ev = (calls, p, self')"
  shows "teardown_config k \<lparr>trace = trace c @ calls, progress_of = p, service_of = self'\<rparr>"
proof -
  have ks: "kind_of s = k" using c s by (simp add: teardown_config_def)
  have b: "teardown_step s (calls, p)"
    by (rule step_teardown[OF _ st]) (simp add: ks k)
  show ?thesis
  proof (cases p)
    case (Suspended s')
    then show ?thesis using c s b by (simp add: teardown_config_def teardown_step_def)
  next
    case (Returned r)
    then show ?thesis using c s b ks
      by (auto simp add: teardown_config_def teardown_step_def intro!: exI[of _ s])
  next
    case (Raised e)
    then show ?thesis using c s b ks
      by (auto simp add: teardown_config_def teardown_step_def intro!: exI[of _ s])
  qed
qed

lemma teardown_config_run:
  "k \<noteq> UnaryK \<Longrightarrow> teardown_config k c \<Longrightarrow> teardown_config k (run c events)"
proof (induction events arbitrary: c)
  case Nil
  then show ?case by simp
next
  case (Cons a events)
  obtain d ev where a: "a = (d, ev)" by (cases a)
  show ?case
  proof (cases "progress_of c")
    case (Suspended s)
    obtain calls p self' where st: "step (service_of c) s d ev = (calls, p, self')"
      by (cases "step (service_of c) s d ev")
    have "teardown_config k \<lparr>trace = trace c @ calls, progress_of = p, service_of = self'\<rparr>"
      by (rule teardown_config_step[OF Cons.prems(1) Cons.prems(2) Suspended st])
    then show ?thesis using Cons.IH[OF Cons.prems(1)] a Suspended st by simp
  next
    case (Returned r)
    then show ?thesis using Cons.prems a by simp
  next
    case (Raised e)
    then show ?thesis using Cons.prems a by simp
  qed
qed

lemma teardown_begin_Advertise:
  "teardown_config AdvertiseK (begin_config self bluetooth (Advertise connectable))"
  by (simp add: teardown_config_def begin_config_def start_def keep_def Advertise_start_def
        Advertise_loop_def Advertise_after_start_def Advertise_get_def Let_def)

lemma teardown_begin_Scan: "teardown_config ScanK (begin_config self bluetooth Scan)"
  by (simp add: teardown_config_def begin_config_def start_def keep_def Scan_start_def)

lemma teardown_begin_Inquiry: "teardown_config InquiryK (begin_config self bluetooth Inquiry)"
  by (simp add: teardown_config_def begin_config_def start_def keep_def Inquiry_start_def
        Inquiry_loop_def)

lemma teardown_finished:
  "teardown_config k c \<Longrightarrow> finished (progress_of c) \<Longrightarrow>
   \<exists>s. kind_of s = k \<and> starts (trace c) = begun s \<and> stops (trace c) = owed s"
  by (cases "progress_of c") (simp_all add: teardown_config_def)

lemma exec_last_step:
  "progress_of (exec self bluetooth request events) = Suspended s \<Longrightarrow>
   step (service_of (exec self bluetooth request events)) s d ev = (calls, p, self') \<Longrightarrow>
   exec self bluetooth request (events @ [(d, ev)]) =
     \<lparr>trace = trace (exec self bluetooth request events) @ calls, progress_of = p, service_of = self'\<rparr>"
  by (simp add: exec_def run_append)

text \<open>
  Claim C7, amended. When \<^verbatim>\<open>Advertise\<close> ends, its stop calls are one
  \<^verbatim>\<open>stop_advertising_set\<close> for each entry of \<^verbatim>\<open>started_ids\<close>, in order, and nothing
  else: every set whose start wait completed is stopped once, and the number of start
  calls is the number of stop calls, or one more when the handler ends while it still
  awaits the confirmation of its last start. When \<^verbatim>\<open>Scan\<close> ends it has made one
  \<^verbatim>\<open>stop_scan\<close> call if it started a scan with a scanner id, and none if it started
  no scan or started one without an id. When \<^verbatim>\<open>Inquiry\<close> ends it has made exactly
  one \<^verbatim>\<open>stop_discovery\<close> call, whether it started the discovery or found it running.
\<close>

theorem streaming_teardown:
  "(finished (progress_of (exec self bluetooth (Advertise connectable) events)) \<longrightarrow>
      (\<exists>ids. stops (trace (exec self bluetooth (Advertise connectable) events)) = map StopAdvertisingSet ids
         \<and> (length (starts (trace (exec self bluetooth (Advertise connectable) events))) = length ids
            \<or> length (starts (trace (exec self bluetooth (Advertise connectable) events))) = Suc (length ids))))
   \<and> (progress_of (exec self bluetooth (Advertise connectable) events) = Suspended (AdvertiseS st)
        \<and> finished (progress_of (exec self bluetooth (Advertise connectable) (events @ [(d, ev)]))) \<longrightarrow>
      stops (trace (exec self bluetooth (Advertise connectable) (events @ [(d, ev)])))
        = map StopAdvertisingSet (started_ids st)
      \<and> length (starts (trace (exec self bluetooth (Advertise connectable) (events @ [(d, ev)]))))
        = length (started_ids st) + awaiting_start (adv_phase st))
   \<and> (finished (progress_of (exec self bluetooth Scan events)) \<longrightarrow>
      (starts (trace (exec self bluetooth Scan events)) = []
         \<and> stops (trace (exec self bluetooth Scan events)) = [])
      \<or> (starts (trace (exec self bluetooth Scan events)) = [StartScan None]
         \<and> stops (trace (exec self bluetooth Scan events)) = [])
      \<or> (\<exists>i. starts (trace (exec self bluetooth Scan events)) = [StartScan (Some i)]
         \<and> stops (trace (exec self bluetooth Scan events)) = [StopScan i]))
   \<and> (finished (progress_of (exec self bluetooth Inquiry events)) \<longrightarrow>
      stops (trace (exec self bluetooth Inquiry events)) = [StopDiscovery]
      \<and> (starts (trace (exec self bluetooth Inquiry events)) = []
          \<or> starts (trace (exec self bluetooth Inquiry events)) = [StartDiscovery]))"
proof -
  let ?a = "exec self bluetooth (Advertise connectable) events"
  let ?a' = "exec self bluetooth (Advertise connectable) (events @ [(d, ev)])"
  let ?s = "exec self bluetooth Scan events"
  let ?i = "exec self bluetooth Inquiry events"
  have ia: "teardown_config AdvertiseK ?a"
    unfolding exec_def by (rule teardown_config_run[OF _ teardown_begin_Advertise]) simp
  have isc: "teardown_config ScanK ?s"
    unfolding exec_def by (rule teardown_config_run[OF _ teardown_begin_Scan]) simp
  have ii: "teardown_config InquiryK ?i"
    unfolding exec_def by (rule teardown_config_run[OF _ teardown_begin_Inquiry]) simp
  have A: "\<exists>ids. stops (trace ?a) = map StopAdvertisingSet ids
         \<and> (length (starts (trace ?a)) = length ids \<or> length (starts (trace ?a)) = Suc (length ids))"
    if f: "finished (progress_of ?a)"
  proof -
    obtain s where s: "kind_of s = AdvertiseK" "starts (trace ?a) = begun s" "stops (trace ?a) = owed s"
      using teardown_finished[OF ia f] by blast
    obtain x where x: "s = AdvertiseS x" using s(1) by (cases s) simp_all
    have "awaiting_start (adv_phase x) = 0 \<or> awaiting_start (adv_phase x) = 1"
      by (cases "adv_phase x") simp_all
    then show ?thesis using s x by (intro exI[of _ "started_ids x"]) auto
  qed
  have B: "stops (trace ?a') = map StopAdvertisingSet (started_ids st)
      \<and> length (starts (trace ?a')) = length (started_ids st) + awaiting_start (adv_phase st)"
    if p: "progress_of ?a = Suspended (AdvertiseS st)" and f: "finished (progress_of ?a')"
  proof -
    obtain calls q self' where stp: "step (service_of ?a) (AdvertiseS st) d ev = (calls, q, self')"
      by (cases "step (service_of ?a) (AdvertiseS st) d ev")
    have e: "?a' = \<lparr>trace = trace ?a @ calls, progress_of = q, service_of = self'\<rparr>"
      by (rule exec_last_step[OF p stp])
    have t: "teardown_step (AdvertiseS st) (calls, q)"
      by (rule step_teardown[OF _ stp]) simp
    have inv: "starts (trace ?a) = begun (AdvertiseS st)" "stops (trace ?a) = []"
      using ia p by (simp_all add: teardown_config_def)
    have fq: "finished q" using f e by simp
    show ?thesis using t inv fq unfolding e
      by (cases q) (simp_all add: teardown_step_def)
  qed
  have S: "(starts (trace ?s) = [] \<and> stops (trace ?s) = [])
      \<or> (starts (trace ?s) = [StartScan None] \<and> stops (trace ?s) = [])
      \<or> (\<exists>i. starts (trace ?s) = [StartScan (Some i)] \<and> stops (trace ?s) = [StopScan i])"
    if f: "finished (progress_of ?s)"
  proof -
    obtain s where s: "kind_of s = ScanK" "starts (trace ?s) = begun s" "stops (trace ?s) = owed s"
      using teardown_finished[OF isc f] by blast
    show ?thesis
    proof (cases s)
      case (ScanRegisteringS task remaining)
      then show ?thesis using s by simp
    next
      case (ScanningS task scanner_id)
      then show ?thesis using s by (cases scanner_id) simp_all
    qed (use s in simp_all)
  qed
  have I: "stops (trace ?i) = [StopDiscovery]
      \<and> (starts (trace ?i) = [] \<or> starts (trace ?i) = [StartDiscovery])"
    if f: "finished (progress_of ?i)"
  proof -
    obtain s where s: "kind_of s = InquiryK" "starts (trace ?i) = begun s" "stops (trace ?i) = owed s"
      using teardown_finished[OF ii f] by blast
    show ?thesis using s by (cases s) (simp_all split: if_splits)
  qed
  show ?thesis using A B S I by blast
qed


lemmas Scan_run_defs =
  exec_def begin_config_def start_def step_def keep_def Scan_start_def Scan_step_registering_def
  Scan_step_scanning_def Scan_finally_def on_scanner_registered_def on_scan_result_def
  set_result_def quiet_device_def Let_def

text \<open>
  Claim C7, where it fails. A non-connectable \<^verbatim>\<open>Advertise\<close> call starts an advertising
  set and is cancelled while it waits for \<^verbatim>\<open>on_advertising_set_started\<close>: the handler
  ends without a \<^verbatim>\<open>stop_advertising_set\<close> call, since it stops only the advertiser ids
  it has been told.
\<close>

theorem Advertise_cancelled_start_not_stopped:
  "exec HostService_init quiet_device (Advertise False) [(quiet_device, Cancel)] =
     \<lparr>trace = [StartAdvertisingSet, Register advertising_client (AdvertisingObserver 0),
               Unregister adapter_client (AdvertisingObserver 0),
               Unregister advertising_client (AdvertisingObserver 0)],
      progress_of = Raised CancelledError, service_of = HostService_init\<rparr>
   \<and> starts (trace (exec HostService_init quiet_device (Advertise False) [(quiet_device, Cancel)]))
       = [StartAdvertisingSet]
   \<and> stops (trace (exec HostService_init quiet_device (Advertise False) [(quiet_device, Cancel)])) = []"
  by (simp add: Advertise_run_defs)

theorem streaming_teardown_witness:
  "finished (progress_of (exec HostService_init quiet_device (Advertise False)
      [(quiet_device, OnAdvertisingSetStarted 0 5 0 (Some SUCCESS)), (quiet_device, Tick),
       (quiet_device, Cancel)]))
   \<and> stops (trace (exec HostService_init quiet_device (Advertise False)
      [(quiet_device, OnAdvertisingSetStarted 0 5 0 (Some SUCCESS)), (quiet_device, Tick),
       (quiet_device, Cancel)])) = [StopAdvertisingSet (Some 5)]
   \<and> length (starts (trace (exec HostService_init quiet_device (Advertise False)
      [(quiet_device, OnAdvertisingSetStarted 0 5 0 (Some SUCCESS)), (quiet_device, Tick),
       (quiet_device, Cancel)]))) = 2
   \<and> finished (progress_of (exec HostService_init quiet_device Scan
      [(quiet_device, OnScannerRegistered ''u'' 3 SUCCESS), (quiet_device, OnScanResult 1),
       (quiet_device, Cancel)]))
   \<and> stops (trace (exec HostService_init quiet_device Scan
      [(quiet_device, OnScannerRegistered ''u'' 3 SUCCESS), (quiet_device, OnScanResult 1),
       (quiet_device, Cancel)])) = [StopScan 3]
   \<and> finished (progress_of (exec HostService_init quiet_device Inquiry [(quiet_device, Cancel)]))
   \<and> stops (trace (exec HostService_init quiet_device Inquiry [(quiet_device, Cancel)])) = [StopDiscovery]"
proof -
  let ?ev = "[(quiet_device, OnAdvertisingSetStarted 0 5 0 (Some SUCCESS)), (quiet_device, Tick)]"
  let ?st = "\<lparr>adv_connectable = False, adv_observers = [AdvertisingObserver 0, AdvertisingObserver 1],
      started_ids = [Some 5], adv_connections = [], adv_phase = AwaitStartAdvertising 0 5\<rparr>"
  let ?sc = "[(quiet_device, OnScannerRegistered ''u'' 3 SUCCESS), (quiet_device, OnScanResult 1),
       (quiet_device, Cancel)]"
  have p: "progress_of (exec HostService_init quiet_device (Advertise False) ?ev) = Suspended (AdvertiseS ?st)"
    by (simp add: Advertise_run_defs)
  have f: "finished (progress_of (exec HostService_init quiet_device (Advertise False)
      (?ev @ [(quiet_device, Cancel)])))"
    by (simp add: Advertise_run_defs)
  have fs: "finished (progress_of (exec HostService_init quiet_device Scan ?sc))"
    by (simp add: Scan_run_defs)
  have ss: "starts (trace (exec HostService_init quiet_device Scan ?sc)) = [StartScan (Some 3)]"
    by (simp add: Scan_run_defs)
  have fi: "finished (progress_of (exec HostService_init quiet_device Inquiry [(quiet_device, Cancel)]))"
    by (simp add: Inquiry_run_defs)
  note t = streaming_teardown[where self = HostService_init and bluetooth = quiet_device
      and connectable = False and events = ?ev and st = ?st and d = quiet_device and ev = Cancel]
  note u = streaming_teardown[where self = HostService_init and bluetooth = quiet_device
      and events = ?sc]
  note v = streaming_teardown[where self = HostService_init and bluetooth = quiet_device
      and events = "[(quiet_device, Cancel)]"]
  have 1: "stops (trace (exec HostService_init quiet_device (Advertise False)
      (?ev @ [(quiet_device, Cancel)]))) = [StopAdvertisingSet (Some 5)]
     \<and> length (starts (trace (exec HostService_init quiet_device (Advertise False)
      (?ev @ [(quiet_device, Cancel)])))) = 2"
    using t p f by simp
  have 2: "stops (trace (exec HostService_init quiet_device Scan ?sc)) = [StopScan 3]"
    using u fs ss by simp
  have 3: "stops (trace (exec HostService_init quiet_device Inquiry [(quiet_device, Cancel)])) = [StopDiscovery]"
    using v fi by simp
  show ?thesis using 1 2 3 f fs fi by simp
qed

end
